theory Spec2Isabelle
  imports Main "HOL-Library.Word"
begin

section \<open>Package strings: the functions client.go calls\<close>

text \<open>
  Go strings are byte strings; \<open>string\<close> (a list of \<open>char\<close>, each one byte) is the
  same data. \<open>byte\<close> reads a character as the number Go compares it with.
\<close>

definition byte :: "char \<Rightarrow> nat" where
  "byte c = of_char c"

definition HasPrefix :: "string \<Rightarrow> string \<Rightarrow> bool" where
  "HasPrefix s p = (take (length p) s = p)"

definition HasSuffix :: "string \<Rightarrow> string \<Rightarrow> bool" where
  "HasSuffix s x = (length x \<le> length s \<and> drop (length s - length x) s = x)"

definition TrimSuffix :: "string \<Rightarrow> string \<Rightarrow> string" where
  "TrimSuffix s x = (if HasSuffix s x then take (length s - length x) s else s)"

fun Contains :: "string \<Rightarrow> string \<Rightarrow> bool" where
  "Contains [] x = (x = [])"
| "Contains (c # s) x = (HasPrefix (c # s) x \<or> Contains s x)"

definition ToLower :: "string \<Rightarrow> string" where
  "ToLower s =
     map (\<lambda>c. case map_of (zip ''ABCDEFGHIJKLMNOPQRSTUVWXYZ'' ''abcdefghijklmnopqrstuvwxyz'') c of
                 Some l \<Rightarrow> l | None \<Rightarrow> c) s"

text \<open>\<open>cut_before c s\<close> is the part of \<open>s\<close> before the first \<open>c\<close> (all of \<open>s\<close> when
  there is none): the first result of \<open>strings.Cut\<close> with a one-byte separator.\<close>

definition cut_before :: "char \<Rightarrow> string \<Rightarrow> string" where
  "cut_before c s = takeWhile (\<lambda>x. x \<noteq> c) s"

text \<open>\<open>after_last c s\<close> is \<open>Some\<close> of the text after the last \<open>c\<close> in \<open>s\<close>, and
  \<open>None\<close> when \<open>s\<close> has no \<open>c\<close> (\<open>strings.LastIndex\<close> returning \<open>-1\<close>).\<close>

definition after_last :: "char \<Rightarrow> string \<Rightarrow> string option" where
  "after_last c s = (if c \<in> set s then Some (rev (takeWhile (\<lambda>x. x \<noteq> c) (rev s))) else None)"

definition is_alpha :: "char \<Rightarrow> bool" where
  "is_alpha c = ((97 \<le> byte c \<and> byte c \<le> 122) \<or> (65 \<le> byte c \<and> byte c \<le> 90))"

definition is_digit :: "char \<Rightarrow> bool" where
  "is_digit c = (48 \<le> byte c \<and> byte c \<le> 57)"

definition ishex :: "char \<Rightarrow> bool" where
  "ishex c = (is_digit c \<or> (97 \<le> byte c \<and> byte c \<le> 102) \<or> (65 \<le> byte c \<and> byte c \<le> 70))"

definition unhex :: "char \<Rightarrow> nat" where
  "unhex c = (if is_digit c then byte c - 48
              else if 97 \<le> byte c \<and> byte c \<le> 102 then byte c - 97 + 10
              else if 65 \<le> byte c \<and> byte c \<le> 70 then byte c - 65 + 10
              else 0)"

section \<open>Package net/url: what parseHost reads of a parsed URL\<close>

text \<open>
  \<open>parseHost\<close> in client.go calls \<open>url.Parse\<close> and reads three things of the result:
  whether it is an error, \<open>u.Scheme\<close> and \<open>u.Port()\<close>. The model follows the library's
  \<open>Parse\<close>, \<open>getScheme\<close>, \<open>parseAuthority\<close>, \<open>parseHost\<close>, \<open>unescape\<close>,
  \<open>validOptionalPort\<close> and \<open>splitHostPort\<close> on these: the scheme, the authority between
  \<open>//\<close> and the next \<open>/\<close>, the host with its optional port, and the checks that make
  \<open>Parse\<close> fail. \<open>Host\<close> is kept as written (percent escapes in a host stand for
  bytes above 127 or for \<open>%\<close> only, so decoding them never changes the port).
\<close>

record URL =
  Scheme :: string
  Host :: string

datatype encoding = encodePath | encodeHost | encodeZone | encodeUserPassword | encodeFragment

definition stringContainsCTLByte :: "string \<Rightarrow> bool" where
  "stringContainsCTLByte s = list_ex (\<lambda>c. byte c < 32 \<or> byte c = 127) s"

text \<open>\<open>getScheme\<close>: \<open>None\<close> is the error "missing protocol scheme"; otherwise the
  scheme (possibly empty) and the rest.\<close>

fun scheme_scan :: "string \<Rightarrow> string \<Rightarrow> string \<Rightarrow> (string \<times> string) option" where
  "scheme_scan rawURL seen [] = Some ([], rawURL)"
| "scheme_scan rawURL seen (c # cs) =
     (if is_alpha c then scheme_scan rawURL (seen @ [c]) cs
      else if is_digit c \<or> c = CHR ''+'' \<or> c = CHR ''-'' \<or> c = CHR ''.'' then
        (if seen = [] then Some ([], rawURL) else scheme_scan rawURL (seen @ [c]) cs)
      else if c = CHR '':'' then
        (if seen = [] then None else Some (seen, cs))
      else Some ([], rawURL))"

definition getScheme :: "string \<Rightarrow> (string \<times> string) option" where
  "getScheme rawURL = scheme_scan rawURL [] rawURL"

definition validOptionalPort :: "string \<Rightarrow> bool" where
  "validOptionalPort port =
     (case port of [] \<Rightarrow> True | c # ds \<Rightarrow> c = CHR '':'' \<and> list_all is_digit ds)"

text \<open>\<open>shouldEscape c encodeHost\<close> of the library, negated: the bytes a host may hold
  unescaped.\<close>

definition host_byte_ok :: "char \<Rightarrow> bool" where
  "host_byte_ok c = (is_alpha c \<or> is_digit c \<or> c \<in> set ''!$&()*+,;=:[]<>-_.~''
     \<or> byte c = 34 \<or> byte c = 39)"

text \<open>\<open>unescape\<close> succeeds: every \<open>%\<close> is followed by two hexadecimal digits; in a
  host an escape stands for a byte above 127 or is \<open>%25\<close>; in a zone it stands for a
  host byte, a space or is \<open>%25\<close>; and a host or zone holds no other ASCII byte that
  must be escaped.\<close>

fun unescape_ok :: "encoding \<Rightarrow> string \<Rightarrow> bool" where
  "unescape_ok mode [] = True"
| "unescape_ok mode (c # s) =
     (if c = CHR ''%'' then
        (case s of
           h1 # h2 # s' \<Rightarrow>
             ishex h1 \<and> ishex h2
             \<and> \<not> (mode = encodeHost \<and> unhex h1 < 8 \<and> [h1, h2] \<noteq> ''25'')
             \<and> \<not> (mode = encodeZone \<and> [h1, h2] \<noteq> ''25'' \<and> unhex h1 * 16 + unhex h2 \<noteq> 32
                   \<and> \<not> (unhex h1 < 8 \<and> host_byte_ok (char_of (unhex h1 * 16 + unhex h2))))
             \<and> unescape_ok mode s'
         | _ \<Rightarrow> False)
      else if (mode = encodeHost \<or> mode = encodeZone) \<and> byte c < 128 \<and> \<not> host_byte_ok c then False
      else unescape_ok mode s)"

text \<open>The library's own \<open>parseHost\<close> (of an authority without user information),
  named \<open>url_parseHost\<close> here: \<open>True\<close> when it returns no error.\<close>

fun index_of :: "string \<Rightarrow> string \<Rightarrow> nat option" where
  "index_of [] x = (if x = [] then Some 0 else None)"
| "index_of (c # s) x =
     (if HasPrefix (c # s) x then Some 0 else map_option Suc (index_of s x))"

definition url_parseHost_ok :: "string \<Rightarrow> bool" where
  "url_parseHost_ok host =
     (if HasPrefix host ''['' then
        (case after_last (CHR '']'') host of
           None \<Rightarrow> False
         | Some colonPort \<Rightarrow>
             validOptionalPort colonPort \<and>
             (let lit = take (length host - length colonPort - 1) host in
              case index_of lit ''%25'' of
                Some zone \<Rightarrow>
                  unescape_ok encodeHost (take zone host)
                  \<and> unescape_ok encodeZone (drop zone lit)
                  \<and> unescape_ok encodeHost (drop (length lit) host)
              | None \<Rightarrow> unescape_ok encodeHost host))
      else
        (case after_last (CHR '':'') host of
           None \<Rightarrow> True
         | Some p \<Rightarrow> validOptionalPort (CHR '':'' # p))
        \<and> unescape_ok encodeHost host)"

definition validUserinfo :: "string \<Rightarrow> bool" where
  "validUserinfo s =
     list_all (\<lambda>c. is_alpha c \<or> is_digit c \<or> c \<in> set ''-._:~!$&()*+,;=%@'' \<or> byte c = 39) s"

text \<open>\<open>parseAuthority\<close>: the host (with its port) of an authority, or \<open>None\<close> on
  error. The user information before the last \<open>@\<close> is checked and dropped.\<close>

definition parseAuthority :: "string \<Rightarrow> string option" where
  "parseAuthority authority =
     (case after_last (CHR ''@'') authority of
        None \<Rightarrow> (if url_parseHost_ok authority then Some authority else None)
      | Some host \<Rightarrow>
          (let userinfo = take (length authority - length host - 1) authority in
           if \<not> url_parseHost_ok host then None
           else if \<not> validUserinfo userinfo then None
           else if \<not> unescape_ok encodeUserPassword userinfo then None
           else Some host))"

text \<open>\<open>url.Parse\<close>: \<open>None\<close> is an error. The fragment after \<open>#\<close> and the query after
  \<open>?\<close> are cut off first; a rest that starts with \<open>//\<close> carries an authority.\<close>

definition url_Parse :: "string \<Rightarrow> URL option" where
  "url_Parse rawURL =
     (let u = cut_before (CHR ''#'') rawURL;
          frag = drop (Suc (length u)) rawURL in
      if stringContainsCTLByte u then None
      else if u = ''*'' then Some \<lparr>Scheme = [], Host = []\<rparr>
      else case getScheme u of
        None \<Rightarrow> None
      | Some (scheme, rest0) \<Rightarrow>
          (let scheme = ToLower scheme;
               rest = cut_before (CHR ''?'') rest0 in
           if \<not> HasPrefix rest ''/'' \<and> scheme \<noteq> [] then
             (if unescape_ok encodeFragment frag then Some \<lparr>Scheme = scheme, Host = []\<rparr> else None)
           else if \<not> HasPrefix rest ''/'' \<and> CHR '':'' \<in> set (cut_before (CHR ''/'') rest) then None
           else if (scheme \<noteq> [] \<or> \<not> HasPrefix rest ''///'') \<and> HasPrefix rest ''//'' then
             (let authority = cut_before (CHR ''/'') (drop 2 rest);
                  path = drop (length authority) (drop 2 rest) in
              case parseAuthority authority of
                None \<Rightarrow> None
              | Some host \<Rightarrow>
                  if unescape_ok encodePath path \<and> unescape_ok encodeFragment frag
                  then Some \<lparr>Scheme = scheme, Host = host\<rparr> else None)
           else if unescape_ok encodePath rest \<and> unescape_ok encodeFragment frag
             then Some \<lparr>Scheme = scheme, Host = []\<rparr> else None))"

text \<open>\<open>u.Port()\<close>: the text after the last colon of the host when it is a valid
  port, and the empty string otherwise (\<open>splitHostPort\<close>).\<close>

definition Port :: "URL \<Rightarrow> string" where
  "Port u =
     (case after_last (CHR '':'') (Host u) of
        None \<Rightarrow> []
      | Some p \<Rightarrow> if validOptionalPort (CHR '':'' # p) then p else [])"

section \<open>client.go: parseHost\<close>

definition parseHost :: "string \<Rightarrow> string" where
  "parseHost host0 =
     (if host0 = [] then ''http://127.0.0.1:11434''
      else
        let host = (if \<not> HasPrefix host0 ''http://'' \<and> \<not> HasPrefix host0 ''https://''
                    then ''http://'' @ host0 else host0) in
        case url_Parse host of
          None \<Rightarrow> ''http://127.0.0.1:11434''
        | Some u \<Rightarrow>
            let host =
              (if Port u = [] then
                 (if Scheme u = ''https'' then host @ '':443''
                  else if Scheme u = ''http'' then
                    (if \<not> Contains (drop 7 host) '':'' then host @ '':11434'' else host)
                  else host)
               else host)
            in TrimSuffix host ''/'')"

section \<open>types.go: requests, responses and errors\<close>

text \<open>
  The structs of types.go as records. A Go \<open>int\<close> or \<open>int64\<close> field is an \<open>int\<close>
  (no modelled function computes with one), a \<open>float64\<close> is carried as its 64-bit
  pattern, a pointer field is an \<open>option\<close> (\<open>None\<close> for \<open>nil\<close>), a
  \<open>json.RawMessage\<close> is its bytes.
\<close>

type_synonym float64 = "64 word"

record Options =
  NumKeep :: "int option"
  Seed :: "int option"
  NumPredict :: "int option"
  TopK :: "int option"
  TopP :: "float64 option"
  TFSZ :: "float64 option"
  TypicalP :: "float64 option"
  RepeatLastN :: "int option"
  Temperature :: "float64 option"
  RepeatPenalty :: "float64 option"
  PresencePenalty :: "float64 option"
  FrequencyPenalty :: "float64 option"
  Mirostat :: "int option"
  MirostatTau :: "float64 option"
  MirostatEta :: "float64 option"
  PenalizeNewline :: "bool option"
  Stop :: "string list"
  NumGPU :: "int option"
  NumThread :: "int option"
  NumCtx :: "int option"
  LogitsAll :: "bool option"
  EmbeddingOnly :: "bool option"
  F16KV :: "bool option"

record Image =
  Data :: string

record FunctionCall =
  Name :: string
  Arguments :: string

record ToolCall =
  ID :: string
  Type :: string
  Function :: FunctionCall

record Message =
  Role :: string
  Content :: string
  Images :: "Image list"
  ToolCalls :: "ToolCall list"
  Name :: string

record Function =
  Name :: string
  Description :: string
  Parameters :: string

record Tool =
  Type :: string
  Function :: Function

record GenerateRequest =
  Model :: string
  Prompt :: string
  System :: string
  Template :: string
  Context :: "int list"
  Stream :: bool
  Raw :: bool
  Format :: string
  Images :: "Image list"
  Options :: "Options option"
  KeepAlive :: string

record GenerateResponse =
  Model :: string
  CreatedAt :: string
  Response :: string
  Done :: bool
  Context :: "int list"
  TotalDuration :: int
  LoadDuration :: int
  PromptEvalCount :: int
  EvalCount :: int
  EvalDuration :: int

record ChatRequest =
  Model :: string
  Messages :: "Message list"
  Format :: string
  Stream :: bool
  Tools :: "Tool list"
  Options :: "Options option"
  KeepAlive :: string

record ChatResponse =
  Model :: string
  CreatedAt :: string
  Message :: Message
  Done :: bool
  TotalDuration :: int
  LoadDuration :: int
  PromptEvalCount :: int
  EvalCount :: int
  EvalDuration :: int

text \<open>
  Errors as values. \<open>RequestError\<close> and \<open>ResponseError\<close> are the two error structs
  of types.go; \<open>Errorf\<close> is an error made by \<open>fmt.Errorf\<close>, with its formatted
  message; \<open>ContextError\<close> is the value of \<open>ctx.Err()\<close> once the context is done.
\<close>

datatype ctx_error = Canceled | DeadlineExceeded

datatype error =
    RequestError string
  | ResponseError int string
  | Errorf string
  | ContextError ctx_error

fun is_ResponseError :: "error \<Rightarrow> bool" where
  "is_ResponseError (ResponseError code msg) = True"
| "is_ResponseError e = False"

section \<open>The HTTP transport and the JSON library, as the client sees them\<close>

text \<open>
  A \<open>payload\<close> is a value that the operations pass as \<open>body\<close>. An \<open>HTTPRequest\<close> is
  what reaches \<open>httpClient.Do\<close>: its \<open>Payload\<close> holds the bytes that
  \<open>json.Marshal\<close> made of the body, \<open>None\<close> for a request without a body.
\<close>

datatype payload = GenerateBody GenerateRequest | ChatBody ChatRequest

record HTTPRequest =
  Method :: string
  Url :: string
  Header :: "(string \<times> string list) list"
  Payload :: "string option"

text \<open>
  An \<open>http.Response\<close>: its status code, the value of
  \<open>resp.Header.Get("Content-Type")\<close>, the bytes its body yields, and the error that
  ends the reads of the body (\<open>None\<close> when they end with \<open>io.EOF\<close>).
\<close>

record Response =
  StatusCode :: int
  ContentType :: string
  Body :: string
  BodyErr :: "string option"

text \<open>
  The transport answers a request in one of three ways: \<open>http.NewRequestWithContext\<close>
  fails, \<open>httpClient.Do\<close> fails, or a response arrives.
\<close>

datatype transport_result = NewRequestFailed string | DoFailed string | Responded Response

record Client =
  baseURL :: string
  httpClient :: "HTTPRequest \<Rightarrow> transport_result"
  headers :: "(string \<times> string list) list"

text \<open>
  The effects of one call that the claims speak of: the requests handed to
  \<open>httpClient.Do\<close>, and how often \<open>resp.Body.Close()\<close> ran.
\<close>

record effects =
  sent :: "HTTPRequest list"
  closes :: nat

record 'a call = effects +
  result :: "error + 'a"

text \<open>
  A streaming call runs in a goroutine of its own. Its outcome: the values the caller
  received on the response channel, in order; the error sent on the error channel, if
  any (the channel has room for one, and at most one is ever sent); and whether the
  goroutine returned, which closes both channels and runs the deferred
  \<open>resp.Body.Close()\<close>.
\<close>

record 'e outcome = effects +
  events :: "'e list"
  err :: "error option"
  returned :: bool

text \<open>
  The context and the receiving caller are the environment of the goroutine. In the
  iteration \<open>i\<close> of a streaming loop (counted from 0), \<open>polled i\<close> says whether
  \<open>ctx.Done()\<close> is ready at the non-blocking \<open>select\<close> at the top of the loop, and
  \<open>selected i\<close> says which case the blocking \<open>select\<close> around the send takes: the
  caller receives the value, \<open>ctx.Done()\<close> fires, or neither ever happens and the
  goroutine stays blocked. When both cases are ready Go picks either, so \<open>selected\<close>
  may answer \<open>Received\<close> although the context is done.
\<close>

datatype selected = Received | CtxDone | Blocked

record env =
  polled :: "nat \<Rightarrow> bool"
  selected :: "nat \<Rightarrow> selected"
  ctxErr :: ctx_error

section \<open>Package bufio: the Scanner of GenerateStream\<close>

text \<open>
  \<open>bufio.NewScanner\<close> splits the body with \<open>ScanLines\<close> and a buffer of at most
  \<open>MaxScanTokenSize\<close> bytes. A token is the text up to the next newline, without the
  newline and without one trailing carriage return; a last line without newline is a
  token too. \<open>Scan\<close> stops with \<open>ErrTooLong\<close> when the buffer is full and holds no
  newline, that is when \<open>MaxScanTokenSize\<close> bytes or more come before the next newline
  (an end of input is only seen by the read after the last byte). \<open>scan_lines\<close> gives
  the tokens that \<open>Scan\<close> delivers and whether it stopped with \<open>ErrTooLong\<close>.
\<close>

definition MaxScanTokenSize :: nat where
  "MaxScanTokenSize = 64 * 1024"

definition dropCR :: "string \<Rightarrow> string" where
  "dropCR data = (if data \<noteq> [] \<and> last data = CHR 0x0D then butlast data else data)"

function scan_lines :: "string \<Rightarrow> string list \<times> bool" where
  "scan_lines buf =
     (if buf = [] then ([], False)
      else
        let line = takeWhile (\<lambda>c. c \<noteq> CHR 0x0A) buf in
        if MaxScanTokenSize \<le> length line then ([], True)
        else
          let r = scan_lines (drop (Suc (length line)) buf)
          in (dropCR line # fst r, snd r))"
  by pat_completeness auto
termination
  by (relation "measure length") auto

declare scan_lines.simps [simp del]

text \<open>\<open>scanner.Err()\<close> after \<open>Scan\<close> returned false: \<open>ErrTooLong\<close>, the error that
  ended the reads, or \<open>nil\<close> after \<open>io.EOF\<close>.\<close>

definition scanner_Err :: "Response \<Rightarrow> string option" where
  "scanner_Err resp =
     (if snd (scan_lines (Body resp)) then Some ''bufio.Scanner: token too long''
      else BodyErr resp)"

section \<open>client.go: request and requestStream\<close>

text \<open>
  \<open>json.Marshal(body)\<close> is the parameter \<open>marshal\<close>: \<open>Inl\<close> is the library's error
  (it fails on a NaN or an infinity in a float of \<open>Options\<close>, and on a
  \<open>json.RawMessage\<close> of a tool whose bytes are no JSON), \<open>Inr\<close> the bytes.
  \<open>bodyReader\<close> is the first block of \<open>request\<close> and of \<open>requestStream\<close>: the
  bytes to send, none when \<open>body\<close> is \<open>nil\<close>, or the error of \<open>json.Marshal\<close>.

  \<open>json.Unmarshal(bodyBytes, &errResp)\<close> is the parameter \<open>unmarshalErr\<close>: \<open>Inl\<close> is
  the library's error, \<open>Inr e\<close> the value of the field \<open>Error\<close> afterwards (empty when
  the object has no such field). The write of the error body to standard output in
  \<open>request\<close> is not part of the model.
\<close>

definition bodyReader :: "(payload \<Rightarrow> string + string) \<Rightarrow> payload option \<Rightarrow> string + string option" where
  "bodyReader marshal body =
     (case body of
        None \<Rightarrow> Inr None
      | Some b \<Rightarrow>
          (case marshal b of
             Inl e \<Rightarrow> Inl e
           | Inr bodyBytes \<Rightarrow> Inr (Some bodyBytes)))"

definition newRequest :: "Client \<Rightarrow> string \<Rightarrow> string \<Rightarrow> string option \<Rightarrow> HTTPRequest" where
  "newRequest c method path bodyBytes =
     \<lparr>Method = method, Url = baseURL c @ path, Header = headers c, Payload = bodyBytes\<rparr>"

definition errorResponse :: "(string \<Rightarrow> string + string) \<Rightarrow> Response \<Rightarrow> error" where
  "errorResponse unmarshalErr resp =
     (case BodyErr resp of
        Some e \<Rightarrow> Errorf (''reading error response: '' @ e)
      | None \<Rightarrow>
          (case unmarshalErr (Body resp) of
             Inr msg \<Rightarrow>
               if msg \<noteq> [] then ResponseError (StatusCode resp) msg
               else ResponseError (StatusCode resp) (Body resp)
           | Inl e \<Rightarrow> ResponseError (StatusCode resp) (Body resp)))"

definition request ::
  "(payload \<Rightarrow> string + string) \<Rightarrow> (string \<Rightarrow> string + string) \<Rightarrow> Client \<Rightarrow> string \<Rightarrow> string \<Rightarrow>
   payload option \<Rightarrow> (string \<Rightarrow> string option \<Rightarrow> string + 'r) option \<Rightarrow> bool \<Rightarrow>
   'r option call" where
  "request marshal unmarshalErr c method path body response stream =
     (case bodyReader marshal body of
        Inl e \<Rightarrow>
          \<lparr>sent = [], closes = 0, result = Inl (Errorf (''marshaling request body: '' @ e))\<rparr>
      | Inr bodyBytes \<Rightarrow>
          (let req = newRequest c method path bodyBytes in
           case httpClient c req of
             NewRequestFailed e \<Rightarrow>
               \<lparr>sent = [], closes = 0, result = Inl (Errorf (''creating request: '' @ e))\<rparr>
           | DoFailed e \<Rightarrow>
               \<lparr>sent = [req], closes = 0, result = Inl (Errorf (''making request: '' @ e))\<rparr>
           | Responded resp \<Rightarrow>
               \<lparr>sent = [req], closes = 1,
                result =
                  (if StatusCode resp \<noteq> 200 then Inl (errorResponse unmarshalErr resp)
                   else case response of
                     None \<Rightarrow> Inr None
                   | Some decode \<Rightarrow>
                       (case decode (Body resp) (BodyErr resp) of
                          Inl e \<Rightarrow> Inl (Errorf (''decoding response: '' @ e))
                        | Inr v \<Rightarrow> Inr (Some v)))\<rparr>))"

definition requestStream ::
  "(payload \<Rightarrow> string + string) \<Rightarrow> (string \<Rightarrow> string + string) \<Rightarrow> Client \<Rightarrow> string \<Rightarrow> string \<Rightarrow>
   payload option \<Rightarrow> Response call" where
  "requestStream marshal unmarshalErr c method path body =
     (case bodyReader marshal body of
        Inl e \<Rightarrow>
          \<lparr>sent = [], closes = 0, result = Inl (Errorf (''marshaling request body: '' @ e))\<rparr>
      | Inr bodyBytes \<Rightarrow>
          (let req = newRequest c method path bodyBytes in
           case httpClient c req of
             NewRequestFailed e \<Rightarrow>
               \<lparr>sent = [], closes = 0, result = Inl (Errorf (''creating request: '' @ e))\<rparr>
           | DoFailed e \<Rightarrow>
               \<lparr>sent = [req], closes = 0, result = Inl (Errorf (''making request: '' @ e))\<rparr>
           | Responded resp \<Rightarrow>
               if StatusCode resp \<noteq> 200 then
                 \<lparr>sent = [req], closes = 1, result = Inl (errorResponse unmarshalErr resp)\<rparr>
               else if \<not> Contains (ContentType resp) ''application/json''
                       \<and> \<not> Contains (ContentType resp) ''application/x-ndjson'' then
                 \<lparr>sent = [req], closes = 0,
                  result = Inl (Errorf (''unexpected content type: '' @ ContentType resp))\<rparr>
               else \<lparr>sent = [req], closes = 0, result = Inr resp\<rparr>))"

section \<open>api.go: Generate, GenerateStream, Chat and ChatStream\<close>

text \<open>
  The four operations take \<open>req\<close> by value (\<open>req GenerateRequest\<close>,
  \<open>req ChatRequest\<close>): the parameter is a variable of the callee, and the
  assignment \<open>req.Stream = ...\<close> writes to it. Each operation is given twice. The
  function \<open>X_body\<close> takes the value of the parameter at entry and returns the value
  the parameter holds when the body is done, with what the operation did; \<open>X\<close> is
  what the operation did alone.

  \<open>Generate\<close> and \<open>Chat\<close> pass \<open>&resp\<close> to \<open>request\<close>, so the \<open>response\<close> argument is
  never \<open>nil\<close>: \<open>decode\<close> stands for \<open>json.NewDecoder(resp.Body).Decode(&resp)\<close>, a
  function of the bytes of the body and of the error that ends its reads, and the
  result \<open>Inr (Some v)\<close> is the pointer to the decoded value.
\<close>

definition Generate_body ::
  "(payload \<Rightarrow> string + string) \<Rightarrow> (string \<Rightarrow> string + string) \<Rightarrow>
   (string \<Rightarrow> string option \<Rightarrow> string + GenerateResponse) \<Rightarrow> Client \<Rightarrow>
   GenerateRequest \<Rightarrow> GenerateRequest \<times> GenerateResponse option call" where
  "Generate_body marshal unmarshalErr decode c req0 =
     (if GenerateRequest.Model req0 = [] then
        (req0, \<lparr>sent = [], closes = 0, result = Inl (RequestError ''model is required'')\<rparr>)
      else
        let req = req0\<lparr>GenerateRequest.Stream := False\<rparr>
        in (req, request marshal unmarshalErr c ''POST'' ''/api/generate''
                   (Some (GenerateBody req)) (Some decode) False))"

definition Generate ::
  "(payload \<Rightarrow> string + string) \<Rightarrow> (string \<Rightarrow> string + string) \<Rightarrow>
   (string \<Rightarrow> string option \<Rightarrow> string + GenerateResponse) \<Rightarrow> Client \<Rightarrow>
   GenerateRequest \<Rightarrow> GenerateResponse option call" where
  "Generate marshal unmarshalErr decode c req0 =
     snd (Generate_body marshal unmarshalErr decode c req0)"

definition Chat_body ::
  "(payload \<Rightarrow> string + string) \<Rightarrow> (string \<Rightarrow> string + string) \<Rightarrow>
   (string \<Rightarrow> string option \<Rightarrow> string + ChatResponse) \<Rightarrow> Client \<Rightarrow>
   ChatRequest \<Rightarrow> ChatRequest \<times> ChatResponse option call" where
  "Chat_body marshal unmarshalErr decode c req0 =
     (if ChatRequest.Model req0 = [] then
        (req0, \<lparr>sent = [], closes = 0, result = Inl (RequestError ''model is required'')\<rparr>)
      else
        let req = req0\<lparr>ChatRequest.Stream := False\<rparr>
        in (req, request marshal unmarshalErr c ''POST'' ''/api/chat''
                   (Some (ChatBody req)) (Some decode) False))"

definition Chat ::
  "(payload \<Rightarrow> string + string) \<Rightarrow> (string \<Rightarrow> string + string) \<Rightarrow>
   (string \<Rightarrow> string option \<Rightarrow> string + ChatResponse) \<Rightarrow> Client \<Rightarrow>
   ChatRequest \<Rightarrow> ChatResponse option call" where
  "Chat marshal unmarshalErr decode c req0 = snd (Chat_body marshal unmarshalErr decode c req0)"

text \<open>
  How the loop of a streaming goroutine ends: it returns, having sent an error or
  none, or it stays blocked in the \<open>select\<close> around a send.
\<close>

datatype ending = Returns "error option" | Blocks

text \<open>
  The loop of \<open>GenerateStream\<close> over the tokens of the scanner. \<open>unmarshal\<close> stands for
  \<open>json.Unmarshal(line, &genResp)\<close>; \<open>scanErr\<close> is \<open>scanner.Err()\<close>, read when the
  tokens are used up. The result is the list of values the caller received and the
  ending.
\<close>

fun generate_loop ::
  "(string \<Rightarrow> string + GenerateResponse) \<Rightarrow> env \<Rightarrow> nat \<Rightarrow> string list \<Rightarrow> string option \<Rightarrow>
   GenerateResponse list \<times> ending" where
  "generate_loop unmarshal env i [] scanErr =
     ([], Returns (case scanErr of
                     None \<Rightarrow> None
                   | Some e \<Rightarrow> Some (Errorf (''error reading response: '' @ e))))"
| "generate_loop unmarshal env i (line # rest) scanErr =
     (if polled env i then ([], Returns (Some (ContextError (ctxErr env))))
      else if line = [] then generate_loop unmarshal env (Suc i) rest scanErr
      else case unmarshal line of
        Inl e \<Rightarrow> ([], Returns (Some (Errorf (''failed to decode response: '' @ e))))
      | Inr genResp \<Rightarrow>
          (case selected env i of
             Blocked \<Rightarrow> ([], Blocks)
           | CtxDone \<Rightarrow> ([], Returns (Some (ContextError (ctxErr env))))
           | Received \<Rightarrow>
               if GenerateResponse.Done genResp then ([genResp], Returns None)
               else
                 let r = generate_loop unmarshal env (Suc i) rest scanErr
                 in (genResp # fst r, snd r)))"

text \<open>
  The end of the goroutine after a response was obtained: when it returns, the
  deferred \<open>resp.Body.Close()\<close> and the two deferred \<open>close\<close> of the channels run.
\<close>

fun finish :: "Response call \<Rightarrow> 'e list \<times> ending \<Rightarrow> 'e outcome" where
  "finish r (evs, Returns e) =
     \<lparr>sent = sent r, closes = closes r + 1, events = evs, err = e, returned = True\<rparr>"
| "finish r (evs, Blocks) =
     \<lparr>sent = sent r, closes = closes r, events = evs, err = None, returned = False\<rparr>"

definition GenerateStream_body ::
  "(payload \<Rightarrow> string + string) \<Rightarrow> (string \<Rightarrow> string + string) \<Rightarrow>
   (string \<Rightarrow> string + GenerateResponse) \<Rightarrow> Client \<Rightarrow> env \<Rightarrow>
   GenerateRequest \<Rightarrow> GenerateRequest \<times> GenerateResponse outcome" where
  "GenerateStream_body marshal unmarshalErr unmarshal c env req0 =
     (if GenerateRequest.Model req0 = [] then
        (req0, \<lparr>sent = [], closes = 0, events = [],
                err = Some (RequestError ''model is required''), returned = True\<rparr>)
      else
        let req = req0\<lparr>GenerateRequest.Stream := True\<rparr>;
            r = requestStream marshal unmarshalErr c ''POST'' ''/api/generate''
                  (Some (GenerateBody req))
        in (req,
            case result r of
              Inl e \<Rightarrow>
                \<lparr>sent = sent r, closes = closes r, events = [], err = Some e, returned = True\<rparr>
            | Inr resp \<Rightarrow>
                finish r (generate_loop unmarshal env 0 (fst (scan_lines (Body resp)))
                            (scanner_Err resp))))"

definition GenerateStream ::
  "(payload \<Rightarrow> string + string) \<Rightarrow> (string \<Rightarrow> string + string) \<Rightarrow>
   (string \<Rightarrow> string + GenerateResponse) \<Rightarrow> Client \<Rightarrow> env \<Rightarrow>
   GenerateRequest \<Rightarrow> GenerateResponse outcome" where
  "GenerateStream marshal unmarshalErr unmarshal c env req0 =
     snd (GenerateStream_body marshal unmarshalErr unmarshal c env req0)"

text \<open>
  The loop of \<open>ChatStream\<close>. \<open>json.NewDecoder(resp.Body)\<close> is the parameter \<open>decoder\<close>:
  from the bytes of the body and the error that ends its reads, the results of the
  successive \<open>Decode\<close> calls up to \<open>io.EOF\<close>, \<open>Inl\<close> an error other than \<open>io.EOF\<close> and
  \<open>Inr\<close> a decoded value. The list is finite, since every value takes at least one
  byte of the body.
\<close>

fun chat_loop :: "env \<Rightarrow> nat \<Rightarrow> (string + ChatResponse) list \<Rightarrow> ChatResponse list \<times> ending" where
  "chat_loop env i [] = ([], Returns None)"
| "chat_loop env i (Inl e # rest) = ([], Returns (Some (Errorf (''decode error: '' @ e))))"
| "chat_loop env i (Inr chatResp # rest) =
     (case selected env i of
        Blocked \<Rightarrow> ([], Blocks)
      | CtxDone \<Rightarrow> ([], Returns (Some (ContextError (ctxErr env))))
      | Received \<Rightarrow>
          if ChatResponse.Done chatResp then ([chatResp], Returns None)
          else
            let r = chat_loop env (Suc i) rest
            in (chatResp # fst r, snd r))"

definition ChatStream_body ::
  "(payload \<Rightarrow> string + string) \<Rightarrow> (string \<Rightarrow> string + string) \<Rightarrow>
   (string \<Rightarrow> string option \<Rightarrow> (string + ChatResponse) list) \<Rightarrow> Client \<Rightarrow> env \<Rightarrow>
   ChatRequest \<Rightarrow> ChatRequest \<times> ChatResponse outcome" where
  "ChatStream_body marshal unmarshalErr decoder c env req0 =
     (if ChatRequest.Model req0 = [] then
        (req0, \<lparr>sent = [], closes = 0, events = [],
                err = Some (RequestError ''model is required''), returned = True\<rparr>)
      else
        let req = req0\<lparr>ChatRequest.Stream := True\<rparr>;
            r = requestStream marshal unmarshalErr c ''POST'' ''/api/chat'' (Some (ChatBody req))
        in (req,
            case result r of
              Inl e \<Rightarrow>
                \<lparr>sent = sent r, closes = closes r, events = [], err = Some e, returned = True\<rparr>
            | Inr resp \<Rightarrow> finish r (chat_loop env 0 (decoder (Body resp) (BodyErr resp)))))"

definition ChatStream ::
  "(payload \<Rightarrow> string + string) \<Rightarrow> (string \<Rightarrow> string + string) \<Rightarrow>
   (string \<Rightarrow> string option \<Rightarrow> (string + ChatResponse) list) \<Rightarrow> Client \<Rightarrow> env \<Rightarrow>
   ChatRequest \<Rightarrow> ChatResponse outcome" where
  "ChatStream marshal unmarshalErr decoder c env req0 =
     snd (ChatStream_body marshal unmarshalErr decoder c env req0)"

text \<open>
  A call of one of the operations, seen from the caller. \<open>vars\<close> are the caller's
  variables of the request type, in the order of their addresses, and \<open>arg\<close> is the
  value of the argument (of one of these variables, say). The parameter \<open>req\<close> is a
  new variable behind them, which starts as a copy of \<open>arg\<close>; the body runs on it
  and leaves its last value there. The result is the store after the call and what
  the operation did.
\<close>

definition call_by_value :: "('a \<Rightarrow> 'a \<times> 'b) \<Rightarrow> 'a list \<Rightarrow> 'a \<Rightarrow> 'a list \<times> 'b" where
  "call_by_value body vars arg =
     (let param = length vars;
          store = vars @ [arg];
          final = body (store ! param)
      in (store[param := fst final], snd final))"

section \<open>Concrete inputs for the examples\<close>

text \<open>
  The library parameters at the inputs the examples below use. Each of them returns
  what encoding/json returns on the inputs it lists; no example feeds it another
  input. \<open>invalid_character\<close> is the text of a \<open>json.SyntaxError\<close> of the scanner of
  encoding/json for the byte \<open>c\<close>, which it puts between apostrophes.
\<close>

definition invalid_character :: "char \<Rightarrow> string \<Rightarrow> string" where
  "invalid_character c what = ''invalid character '' @ [CHR 0x27, c, CHR 0x27] @ '' '' @ what"

definition zeroGenerateResponse :: GenerateResponse where
  "zeroGenerateResponse =
     \<lparr>GenerateResponse.Model = [], GenerateResponse.CreatedAt = [], Response = [],
      GenerateResponse.Done = False, GenerateResponse.Context = [],
      GenerateResponse.TotalDuration = 0, GenerateResponse.LoadDuration = 0,
      GenerateResponse.PromptEvalCount = 0, GenerateResponse.EvalCount = 0,
      GenerateResponse.EvalDuration = 0\<rparr>"

definition fragment :: "string \<Rightarrow> bool \<Rightarrow> GenerateResponse" where
  "fragment piece done = zeroGenerateResponse\<lparr>Response := piece, GenerateResponse.Done := done\<rparr>"

definition zeroChatResponse :: ChatResponse where
  "zeroChatResponse =
     \<lparr>ChatResponse.Model = [], ChatResponse.CreatedAt = [],
      Message = \<lparr>Role = [], Content = [], Message.Images = [], ToolCalls = [], Message.Name = []\<rparr>,
      ChatResponse.Done = False, ChatResponse.TotalDuration = 0, ChatResponse.LoadDuration = 0,
      ChatResponse.PromptEvalCount = 0, ChatResponse.EvalCount = 0,
      ChatResponse.EvalDuration = 0\<rparr>"

definition chat_fragment :: "bool \<Rightarrow> ChatResponse" where
  "chat_fragment done = zeroChatResponse\<lparr>ChatResponse.Done := done\<rparr>"

text \<open>
  \<open>json.Unmarshal(bodyBytes, &errResp)\<close> on the bodies \<open>{"error":"model not found"}\<close>
  and \<open>{}\<close>, on the empty body, and on a body that is plain text (\<open>created\<close>,
  \<open>out of memory\<close>), whose first byte cannot begin a JSON value.
\<close>

definition example_unmarshalErr :: "string \<Rightarrow> string + string" where
  \<open>example_unmarshalErr body =
     (if body = ''{"error":"model not found"}'' then Inr ''model not found''
      else if body = ''{}'' then Inr []
      else case body of
        [] \<Rightarrow> Inl ''unexpected end of JSON input''
      | c # rest \<Rightarrow> Inl (invalid_character c ''looking for beginning of value''))\<close>

text \<open>
  \<open>json.Unmarshal(line, &genResp)\<close> on three lines of one record each, on a line
  of two records, where it fails at the first byte of the second one, and on the
  empty slice.
\<close>

definition example_unmarshal :: "string \<Rightarrow> string + GenerateResponse" where
  \<open>example_unmarshal line =
     (if line = ''{"response":"Hel"}'' then Inr (fragment ''Hel'' False)
      else if line = ''{"response":"lo"}'' then Inr (fragment ''lo'' False)
      else if line = ''{"done":true}'' then Inr (fragment [] True)
      else if line = ''{"response":"Hel"}{"done":true}''
        then Inl (invalid_character (CHR ''{'') ''after top-level value'')
      else Inl ''unexpected end of JSON input'')\<close>

text \<open>
  \<open>json.NewDecoder(resp.Body).Decode(&resp)\<close> of \<open>request\<close> on a body of one
  record, and on the empty body, where it returns \<open>io.EOF\<close>.
\<close>

definition example_decode :: "string \<Rightarrow> string option \<Rightarrow> string + GenerateResponse" where
  \<open>example_decode body bodyErr =
     (if body = ''{"response":"Hello","done":true}'' \<and> bodyErr = None
      then Inr (fragment ''Hello'' True)
      else Inl ''EOF'')\<close>

definition example_chat_decode :: "string \<Rightarrow> string option \<Rightarrow> string + ChatResponse" where
  \<open>example_chat_decode body bodyErr =
     (if body = ''{"done":true}'' \<and> bodyErr = None then Inr (chat_fragment True)
      else Inl ''EOF'')\<close>

text \<open>
  The decoder of \<open>ChatStream\<close> on a body of three values, on the body \<open>]\<close>, where the
  first \<open>Decode\<close> fails, and on the empty body, where the first \<open>Decode\<close> returns
  \<open>io.EOF\<close> or the error that ended the read.
\<close>

definition example_decoder :: "string \<Rightarrow> string option \<Rightarrow> (string + ChatResponse) list" where
  \<open>example_decoder body bodyErr =
     (if body = ''{"done":false}{"done":false}{"done":true}'' \<and> bodyErr = None
        then [Inr (chat_fragment False), Inr (chat_fragment False), Inr (chat_fragment True)]
      else if body = '']'' \<and> bodyErr = None
        then [Inl (invalid_character (CHR '']'') ''looking for beginning of value'')]
      else case bodyErr of None \<Rightarrow> [] | Some e \<Rightarrow> [Inl e])\<close>

text \<open>A body of three records with a blank line before the last one.\<close>

definition three_lines :: string where
  \<open>three_lines = ''{"response":"Hel"}\<newline>{"response":"lo"}\<newline>\<newline>{"done":true}\<newline>''\<close>

text \<open>A body of three values without separators, as \<open>application/json\<close> streams
  carry them.\<close>

definition three_values :: string where
  \<open>three_values = ''{"done":false}{"done":false}{"done":true}''\<close>

definition answering :: "Response \<Rightarrow> Client" where
  "answering resp =
     \<lparr>baseURL = ''http://127.0.0.1:11434'', httpClient = (\<lambda>req. Responded resp),
      headers = [(''Content-Type'', [''application/json'']), (''Accept'', [''application/json''])]\<rparr>"

definition responding :: "int \<Rightarrow> string \<Rightarrow> string \<Rightarrow> Response" where
  "responding code ct body = \<lparr>StatusCode = code, ContentType = ct, Body = body, BodyErr = None\<rparr>"

definition receiving :: env where
  "receiving = \<lparr>polled = (\<lambda>i. False), selected = (\<lambda>i. Received), ctxErr = Canceled\<rparr>"

text \<open>The context is cancelled while iteration \<open>m\<close> waits in its send, and stays so.\<close>

definition cancelled_in :: "nat \<Rightarrow> env" where
  "cancelled_in m =
     \<lparr>polled = (\<lambda>i. m < i), selected = (\<lambda>i. if i < m then Received else CtxDone),
      ctxErr = Canceled\<rparr>"

text \<open>The context is cancelled before iteration \<open>m\<close> starts.\<close>

definition cancelled_before :: "nat \<Rightarrow> env" where
  "cancelled_before m =
     \<lparr>polled = (\<lambda>i. m \<le> i), selected = (\<lambda>i. if i < m then Received else CtxDone),
      ctxErr = Canceled\<rparr>"

definition example_request :: "bool \<Rightarrow> GenerateRequest" where
  "example_request stream =
     \<lparr>GenerateRequest.Model = ''llama3.2:latest'', Prompt = ''Why is the sky blue?'',
      System = [], Template = [], GenerateRequest.Context = [], GenerateRequest.Stream = stream,
      Raw = False, GenerateRequest.Format = [], GenerateRequest.Images = [],
      GenerateRequest.Options = None, GenerateRequest.KeepAlive = []\<rparr>"

definition example_chat_request :: "bool \<Rightarrow> ChatRequest" where
  "example_chat_request stream =
     \<lparr>ChatRequest.Model = ''llama3.2:latest'',
      Messages = [\<lparr>Role = ''user'', Content = ''Hello'', Message.Images = [], ToolCalls = [],
                   Message.Name = []\<rparr>],
      ChatRequest.Format = [], ChatRequest.Stream = stream, Tools = [],
      ChatRequest.Options = None, ChatRequest.KeepAlive = []\<rparr>"

text \<open>
  The bytes that \<open>json.Marshal\<close> makes of the two example requests: the fields in
  the order of the struct, those tagged \<open>omitempty\<close> left out when they are empty.
  \<open>example_marshal\<close> is \<open>json.Marshal\<close> on these requests; to every other body it gives
  the error that \<open>json.Marshal\<close> returns for a NaN among the options.
\<close>

definition example_request_json :: "bool \<Rightarrow> string" where
  \<open>example_request_json stream =
     (if stream
      then ''{"model":"llama3.2:latest","prompt":"Why is the sky blue?","stream":true}''
      else ''{"model":"llama3.2:latest","prompt":"Why is the sky blue?","stream":false}'')\<close>

definition example_chat_request_json :: "bool \<Rightarrow> string" where
  \<open>example_chat_request_json stream =
     (if stream
      then ''{"model":"llama3.2:latest","messages":[{"role":"user","content":"Hello"}],"stream":true}''
      else ''{"model":"llama3.2:latest","messages":[{"role":"user","content":"Hello"}],"stream":false}'')\<close>

definition example_marshal :: "payload \<Rightarrow> string + string" where
  "example_marshal body =
     (case body of
        GenerateBody req \<Rightarrow>
          if req = example_request (GenerateRequest.Stream req)
          then Inr (example_request_json (GenerateRequest.Stream req))
          else Inl ''json: unsupported value: NaN''
      | ChatBody req \<Rightarrow>
          if req = example_chat_request (ChatRequest.Stream req)
          then Inr (example_chat_request_json (ChatRequest.Stream req))
          else Inl ''json: unsupported value: NaN'')"

section \<open>Notions used in the statements\<close>

text \<open>
  \<open>accepted resp\<close>: \<open>requestStream\<close> hands the response on (status 200 and a content
  type it knows). \<open>quiet env n\<close>: in the iterations before the \<open>n\<close>-th the context is
  not seen done and the caller receives each value. \<open>generate_request\<close> and
  \<open>chat_request\<close> are the requests that \<open>GenerateStream\<close> and \<open>ChatStream\<close> build
  around the bytes of the body.
\<close>

definition accepted :: "Response \<Rightarrow> bool" where
  "accepted resp =
     (StatusCode resp = 200 \<and>
      (Contains (ContentType resp) ''application/json''
       \<or> Contains (ContentType resp) ''application/x-ndjson''))"

definition quiet :: "env \<Rightarrow> nat \<Rightarrow> bool" where
  "quiet env n = (\<forall>j < n. \<not> polled env j \<and> selected env j = Received)"

definition generate_request :: "Client \<Rightarrow> string \<Rightarrow> HTTPRequest" where
  "generate_request c bodyBytes = newRequest c ''POST'' ''/api/generate'' (Some bodyBytes)"

definition chat_request :: "Client \<Rightarrow> string \<Rightarrow> HTTPRequest" where
  "chat_request c bodyBytes = newRequest c ''POST'' ''/api/chat'' (Some bodyBytes)"

text \<open>
  \<open>receives env n\<close>: the caller receives each of the first \<open>n\<close> values sent.
  \<open>upto_done d es\<close>: the values of \<open>es\<close> up to and with the first one that is done.
\<close>

fun upto_done :: "('e \<Rightarrow> bool) \<Rightarrow> 'e list \<Rightarrow> 'e list" where
  "upto_done d [] = []"
| "upto_done d (e # es) = (if d e then [e] else e # upto_done d es)"

definition receives :: "env \<Rightarrow> nat \<Rightarrow> bool" where
  "receives env n = (\<forall>j < n. selected env j = Received)"

text \<open>\<open>with_scheme host\<close>: the host after \<open>parseHost\<close> has put \<open>http://\<close> before it
  when it starts with neither \<open>http://\<close> nor \<open>https://\<close>.\<close>

definition with_scheme :: "string \<Rightarrow> string" where
  "with_scheme host =
     (if \<not> HasPrefix host ''http://'' \<and> \<not> HasPrefix host ''https://''
      then ''http://'' @ host else host)"

section \<open>Properties\<close>

subsection \<open>The streaming loops\<close>

text \<open>
  A response that \<open>requestStream\<close> accepts reaches the loop, and the goroutine ends
  as the loop does.
\<close>

lemma Generate_unfold:
  "Generate marshal uerr decode c req =
     (if GenerateRequest.Model req = [] then
        \<lparr>sent = [], closes = 0, result = Inl (RequestError ''model is required'')\<rparr>
      else request marshal uerr c ''POST'' ''/api/generate''
             (Some (GenerateBody (req\<lparr>GenerateRequest.Stream := False\<rparr>))) (Some decode) False)"
  by (simp add: Generate_def Generate_body_def Let_def)

lemma Chat_unfold:
  "Chat marshal uerr decode c req =
     (if ChatRequest.Model req = [] then
        \<lparr>sent = [], closes = 0, result = Inl (RequestError ''model is required'')\<rparr>
      else request marshal uerr c ''POST'' ''/api/chat''
             (Some (ChatBody (req\<lparr>ChatRequest.Stream := False\<rparr>))) (Some decode) False)"
  by (simp add: Chat_def Chat_body_def Let_def)

lemma GenerateStream_unfold:
  "GenerateStream marshal uerr unmarshal c env req =
     (if GenerateRequest.Model req = [] then
        \<lparr>sent = [], closes = 0, events = [],
         err = Some (RequestError ''model is required''), returned = True\<rparr>
      else
        case result (requestStream marshal uerr c ''POST'' ''/api/generate''
                       (Some (GenerateBody (req\<lparr>GenerateRequest.Stream := True\<rparr>)))) of
          Inl e \<Rightarrow>
            \<lparr>sent = sent (requestStream marshal uerr c ''POST'' ''/api/generate''
                            (Some (GenerateBody (req\<lparr>GenerateRequest.Stream := True\<rparr>)))),
             closes = closes (requestStream marshal uerr c ''POST'' ''/api/generate''
                            (Some (GenerateBody (req\<lparr>GenerateRequest.Stream := True\<rparr>)))),
             events = [], err = Some e, returned = True\<rparr>
        | Inr resp \<Rightarrow>
            finish (requestStream marshal uerr c ''POST'' ''/api/generate''
                      (Some (GenerateBody (req\<lparr>GenerateRequest.Stream := True\<rparr>))))
              (generate_loop unmarshal env 0 (fst (scan_lines (Body resp))) (scanner_Err resp)))"
  by (simp add: GenerateStream_def GenerateStream_body_def Let_def)

lemma ChatStream_unfold:
  "ChatStream marshal uerr decoder c env req =
     (if ChatRequest.Model req = [] then
        \<lparr>sent = [], closes = 0, events = [],
         err = Some (RequestError ''model is required''), returned = True\<rparr>
      else
        case result (requestStream marshal uerr c ''POST'' ''/api/chat''
                       (Some (ChatBody (req\<lparr>ChatRequest.Stream := True\<rparr>)))) of
          Inl e \<Rightarrow>
            \<lparr>sent = sent (requestStream marshal uerr c ''POST'' ''/api/chat''
                            (Some (ChatBody (req\<lparr>ChatRequest.Stream := True\<rparr>)))),
             closes = closes (requestStream marshal uerr c ''POST'' ''/api/chat''
                            (Some (ChatBody (req\<lparr>ChatRequest.Stream := True\<rparr>)))),
             events = [], err = Some e, returned = True\<rparr>
        | Inr resp \<Rightarrow>
            finish (requestStream marshal uerr c ''POST'' ''/api/chat''
                      (Some (ChatBody (req\<lparr>ChatRequest.Stream := True\<rparr>))))
              (chat_loop env 0 (decoder (Body resp) (BodyErr resp))))"
  by (simp add: ChatStream_def ChatStream_body_def Let_def)

lemma bodyReader_Some: "marshal b = Inr bytes \<Longrightarrow> bodyReader marshal (Some b) = Inr (Some bytes)"
  by (simp add: bodyReader_def)

lemma requestStream_accepted:
  "bodyReader marshal b = Inr bytes \<Longrightarrow> httpClient c (newRequest c m p bytes) = Responded resp \<Longrightarrow>
   accepted resp \<Longrightarrow>
   requestStream marshal uerr c m p b =
     \<lparr>sent = [newRequest c m p bytes], closes = 0, result = Inr resp\<rparr>"
  by (auto simp: requestStream_def accepted_def Let_def)

lemma GenerateStream_accepted:
  "GenerateRequest.Model req \<noteq> [] \<Longrightarrow> httpClient c (generate_request c bytes) = Responded resp \<Longrightarrow>
   accepted resp \<Longrightarrow>
   marshal (GenerateBody (req\<lparr>GenerateRequest.Stream := True\<rparr>)) = Inr bytes \<Longrightarrow>
   GenerateStream marshal uerr unmarshal c env req =
     finish \<lparr>sent = [generate_request c bytes], closes = 0, result = Inr resp\<rparr>
       (generate_loop unmarshal env 0 (fst (scan_lines (Body resp))) (scanner_Err resp))"
  by (simp add: GenerateStream_unfold generate_request_def
        requestStream_accepted[OF bodyReader_Some])

lemma ChatStream_accepted:
  "ChatRequest.Model req \<noteq> [] \<Longrightarrow> httpClient c (chat_request c bytes) = Responded resp \<Longrightarrow>
   accepted resp \<Longrightarrow>
   marshal (ChatBody (req\<lparr>ChatRequest.Stream := True\<rparr>)) = Inr bytes \<Longrightarrow>
   ChatStream marshal uerr decoder c env req =
     finish \<lparr>sent = [chat_request c bytes], closes = 0, result = Inr resp\<rparr>
       (chat_loop env 0 (decoder (Body resp) (BodyErr resp)))"
  by (simp add: ChatStream_unfold chat_request_def requestStream_accepted[OF bodyReader_Some])

lemma generate_loop_prefix:
  "(\<forall>j. i \<le> j \<and> j < i + length pre \<longrightarrow> \<not> polled env j \<and> selected env j = Received) \<Longrightarrow>
   map unmarshal (filter (\<lambda>l. l \<noteq> []) pre) = map Inr evs \<Longrightarrow>
   list_all (\<lambda>e. \<not> GenerateResponse.Done e) evs \<Longrightarrow>
   generate_loop unmarshal env i (pre @ rest) se =
     (evs @ fst (generate_loop unmarshal env (i + length pre) rest se),
      snd (generate_loop unmarshal env (i + length pre) rest se))"
proof (induction pre arbitrary: i evs)
  case Nil
  then show ?case by simp
next
  case (Cons l pre)
  from Cons.prems(1) have q: "\<not> polled env i" "selected env i = Received"
    and q': "\<forall>j. Suc i \<le> j \<and> j < Suc i + length pre \<longrightarrow> \<not> polled env j \<and> selected env j = Received"
    by auto
  show ?case
  proof (cases "l = []")
    case True
    with Cons.prems have "map unmarshal (filter (\<lambda>l. l \<noteq> []) pre) = map Inr evs" by simp
    from Cons.IH[OF q' this Cons.prems(3)] True q show ?thesis by simp
  next
    case False
    with Cons.prems(2) obtain e evs' where evs: "evs = e # evs'" "unmarshal l = Inr e"
      "map unmarshal (filter (\<lambda>l. l \<noteq> []) pre) = map Inr evs'"
      by (cases evs) auto
    with Cons.prems(3) have nd: "\<not> GenerateResponse.Done e" "list_all (\<lambda>e. \<not> GenerateResponse.Done e) evs'"
      by auto
    from Cons.IH[OF q' evs(3) nd(2)] False q evs nd show ?thesis
      by (simp add: Let_def)
  qed
qed

lemma chat_loop_prefix:
  "(\<forall>j. i \<le> j \<and> j < i + length evs \<longrightarrow> selected env j = Received) \<Longrightarrow>
   list_all (\<lambda>e. \<not> ChatResponse.Done e) evs \<Longrightarrow>
   chat_loop env i (map Inr evs @ rest) =
     (evs @ fst (chat_loop env (i + length evs) rest), snd (chat_loop env (i + length evs) rest))"
proof (induction evs arbitrary: i)
  case Nil
  then show ?case by simp
next
  case (Cons e evs)
  from Cons.prems(1) have q: "selected env i = Received"
    and q': "\<forall>j. Suc i \<le> j \<and> j < Suc i + length evs \<longrightarrow> selected env j = Received"
    by auto
  from Cons.prems(2) have nd: "\<not> ChatResponse.Done e" "list_all (\<lambda>e. \<not> ChatResponse.Done e) evs"
    by auto
  from Cons.IH[OF q' nd(2)] q nd show ?case by (simp add: Let_def)
qed

lemma GenerateStream_cancelled:
  assumes "GenerateRequest.Model req \<noteq> []"
    and "httpClient c (generate_request c bytes) = Responded resp"
    and "accepted resp"
    and "fst (scan_lines (Body resp)) = pre @ line # post"
    and "map unmarshal (filter (\<lambda>l. l \<noteq> []) pre) = map Inr evs"
    and "list_all (\<lambda>e. \<not> GenerateResponse.Done e) evs"
    and "quiet env (length pre)"
    and "polled env (length pre)
         \<or> (line \<noteq> [] \<and> unmarshal line = Inr v \<and> selected env (length pre) = CtxDone)"
    and m: "marshal (GenerateBody (req\<lparr>GenerateRequest.Stream := True\<rparr>)) = Inr bytes"
  shows "GenerateStream marshal uerr unmarshal c env req =
           \<lparr>sent = [generate_request c bytes], closes = 1, events = evs,
            err = Some (ContextError (ctxErr env)), returned = True\<rparr>"
proof -
  from assms(7) have q: "\<forall>j. 0 \<le> j \<and> j < 0 + length pre \<longrightarrow> \<not> polled env j \<and> selected env j = Received"
    by (simp add: quiet_def)
  have "generate_loop unmarshal env (0 + length pre) (line # post) (scanner_Err resp)
          = ([], Returns (Some (ContextError (ctxErr env))))"
    using assms(8) by (cases "polled env (length pre)") auto
  with generate_loop_prefix[OF q assms(5) assms(6), of "line # post" "scanner_Err resp"]
  have "generate_loop unmarshal env 0 (pre @ line # post) (scanner_Err resp)
          = (evs, Returns (Some (ContextError (ctxErr env))))"
    by simp
  with GenerateStream_accepted[where marshal = marshal, OF assms(1-3) m] assms(4) show ?thesis by simp
qed

lemma ChatStream_cancelled:
  assumes "ChatRequest.Model req \<noteq> []"
    and "httpClient c (chat_request c bytes) = Responded resp"
    and "accepted resp"
    and "decoder (Body resp) (BodyErr resp) = map Inr evs @ Inr v # post"
    and "list_all (\<lambda>e. \<not> ChatResponse.Done e) evs"
    and "receives env (length evs)"
    and "selected env (length evs) = CtxDone"
    and m: "marshal (ChatBody (req\<lparr>ChatRequest.Stream := True\<rparr>)) = Inr bytes"
  shows "ChatStream marshal uerr decoder c env req =
           \<lparr>sent = [chat_request c bytes], closes = 1, events = evs,
            err = Some (ContextError (ctxErr env)), returned = True\<rparr>"
proof -
  from assms(6) have q: "\<forall>j. 0 \<le> j \<and> j < 0 + length evs \<longrightarrow> selected env j = Received"
    by (simp add: receives_def)
  have "chat_loop env (0 + length evs) (Inr v # post) = ([], Returns (Some (ContextError (ctxErr env))))"
    using assms(7) by simp
  with chat_loop_prefix[OF q assms(5), of "Inr v # post"]
  have "chat_loop env 0 (map Inr evs @ Inr v # post) = (evs, Returns (Some (ContextError (ctxErr env))))"
    by simp
  with ChatStream_accepted[where marshal = marshal, OF assms(1-3) m] assms(4) show ?thesis by simp
qed

subsection \<open>The scanner\<close>

lemma scan_three_lines:
  \<open>scan_lines three_lines = ([''{"response":"Hel"}'', ''{"response":"lo"}'', [], ''{"done":true}''], False)\<close>
  by (simp add: scan_lines.simps three_lines_def MaxScanTokenSize_def dropCR_def)

lemma scan_lines_too_long:
  assumes "CHR 0x0A \<notin> set l" and "MaxScanTokenSize \<le> length l"
  shows "scan_lines (l @ rest) = ([], True)"
proof -
  from assms(1) have "takeWhile (\<lambda>c. c \<noteq> CHR 0x0A) (l @ rest) = l @ takeWhile (\<lambda>c. c \<noteq> CHR 0x0A) rest"
    by (intro takeWhile_append2) auto
  then have len: "MaxScanTokenSize \<le> length (takeWhile (\<lambda>c. c \<noteq> CHR 0x0A) (l @ rest))"
    using assms(2) by simp
  from assms(2) have "l @ rest \<noteq> []" by (auto simp: MaxScanTokenSize_def)
  with len show ?thesis
    by (subst scan_lines.simps) (simp add: Let_def)
qed

lemma scan_lines_line:
  assumes "CHR 0x0A \<notin> set l" and "length l < MaxScanTokenSize"
  shows "scan_lines (l @ CHR 0x0A # rest) = (dropCR l # fst (scan_lines rest), snd (scan_lines rest))"
proof -
  from assms(1) have tw: "takeWhile (\<lambda>c. c \<noteq> CHR 0x0A) (l @ CHR 0x0A # rest) = l"
    by (auto simp: takeWhile_tail)
  show ?thesis
    by (subst scan_lines.simps) (use assms(2) in \<open>simp add: tw Let_def\<close>)
qed

lemma scan_lines_lines:
  "list_all (\<lambda>l. CHR 0x0A \<notin> set l \<and> length l < MaxScanTokenSize) ls \<Longrightarrow>
   scan_lines (concat (map (\<lambda>l. l @ [CHR 0x0A]) ls)) = (map dropCR ls, False)"
proof (induction ls)
  case Nil
  show ?case by (subst scan_lines.simps) simp
next
  case (Cons l ls)
  then show ?case using scan_lines_line[of l "concat (map (\<lambda>l. l @ [CHR 0x0A]) ls)"] by simp
qed

lemma GenerateStream_token_too_long:
  assumes "GenerateRequest.Model req \<noteq> []"
    and "httpClient c (generate_request c bytes) = Responded resp"
    and "accepted resp"
    and "Body resp = l @ rest"
    and "CHR 0x0A \<notin> set l" and "MaxScanTokenSize \<le> length l"
    and m: "marshal (GenerateBody (req\<lparr>GenerateRequest.Stream := True\<rparr>)) = Inr bytes"
  shows "GenerateStream marshal uerr unmarshal c env req =
           \<lparr>sent = [generate_request c bytes], closes = 1, events = [],
            err = Some (Errorf ''error reading response: bufio.Scanner: token too long''),
            returned = True\<rparr>"
  using GenerateStream_accepted[where marshal = marshal, OF assms(1-3) m] scan_lines_too_long[OF assms(5,6), of rest] assms(4)
  by (simp add: scanner_Err_def)

lemma accepted_ndjson: "accepted (responding 200 ''application/x-ndjson'' body)"
  by (simp add: accepted_def responding_def HasPrefix_def)

lemma accepted_json: "accepted (responding 200 ''application/json'' body)"
  by (simp add: accepted_def responding_def HasPrefix_def)

lemma answering_responds: "httpClient (answering resp) req = Responded resp"
  by (simp add: answering_def)

lemma example_request_Model: "GenerateRequest.Model (example_request b) \<noteq> []"
  by (simp add: example_request_def)

lemma example_request_Stream:
  "(example_request b)\<lparr>GenerateRequest.Stream := b'\<rparr> = example_request b'"
  by (simp add: example_request_def)

lemma example_marshal_example_request:
  "example_marshal (GenerateBody (example_request b)) = Inr (example_request_json b)"
  by (simp add: example_marshal_def example_request_def)

lemma example_marshal_generate:
  "example_marshal (GenerateBody ((example_request b)\<lparr>GenerateRequest.Stream := b'\<rparr>))
     = Inr (example_request_json b')"
  by (simp only: example_request_Stream example_marshal_example_request)

lemma Body_responding: "Body (responding code ct body) = body"
  by (simp add: responding_def)

lemma long_line:
  "CHR 0x0A \<notin> set (pre @ replicate MaxScanTokenSize (CHR ''a''))
     \<longleftrightarrow> CHR 0x0A \<notin> set pre"
  "MaxScanTokenSize \<le> length (pre @ replicate MaxScanTokenSize (CHR ''a''))"
  by (simp_all add: set_replicate_conv_if)

subsection \<open>Runs without cancellation\<close>

text \<open>
  When the context is never seen done and the caller receives every value,
  \<open>GenerateStream\<close> delivers the records of the non-blank lines up to the first one
  that is done, and \<open>ChatStream\<close> the values of the decoder likewise. A line or a
  value that does not decode ends the stream with a decode error after the values
  before it.
\<close>

lemma upto_done_none: "list_all (\<lambda>e. \<not> d e) es \<Longrightarrow> upto_done d es = es"
  by (induction es) auto

lemma upto_done_last: "list_all (\<lambda>e. \<not> d e) es \<Longrightarrow> d v \<Longrightarrow> upto_done d (es @ [v]) = es @ [v]"
  by (induction es) auto

lemma generate_loop_quiet:
  "(\<forall>j. i \<le> j \<and> j < i + length toks \<longrightarrow> \<not> polled env j \<and> selected env j = Received) \<Longrightarrow>
   map unmarshal (filter (\<lambda>l. l \<noteq> []) toks) = map Inr evs \<Longrightarrow>
   generate_loop unmarshal env i toks se =
     (upto_done GenerateResponse.Done evs,
      Returns (if list_ex GenerateResponse.Done evs then None
               else map_option (\<lambda>e. Errorf (''error reading response: '' @ e)) se))"
proof (induction toks arbitrary: i evs)
  case Nil
  then show ?case by (cases se) auto
next
  case (Cons l toks)
  from Cons.prems(1) have q: "\<not> polled env i" "selected env i = Received"
    and q': "\<forall>j. Suc i \<le> j \<and> j < Suc i + length toks \<longrightarrow> \<not> polled env j \<and> selected env j = Received"
    by auto
  show ?case
  proof (cases "l = []")
    case True
    with Cons.prems have "map unmarshal (filter (\<lambda>l. l \<noteq> []) toks) = map Inr evs" by simp
    from Cons.IH[OF q' this] True q show ?thesis by simp
  next
    case False
    with Cons.prems(2) obtain e evs' where evs: "evs = e # evs'" "unmarshal l = Inr e"
      "map unmarshal (filter (\<lambda>l. l \<noteq> []) toks) = map Inr evs'"
      by (cases evs) auto
    from Cons.IH[OF q' evs(3)] False q evs show ?thesis
      by (simp add: Let_def)
  qed
qed

lemma chat_loop_quiet:
  "(\<forall>j. i \<le> j \<and> j < i + length evs \<longrightarrow> selected env j = Received) \<Longrightarrow>
   chat_loop env i (map Inr evs) = (upto_done ChatResponse.Done evs, Returns None)"
proof (induction evs arbitrary: i)
  case Nil
  then show ?case by simp
next
  case (Cons e evs)
  from Cons.prems(1) have q: "selected env i = Received"
    and q': "\<forall>j. Suc i \<le> j \<and> j < Suc i + length evs \<longrightarrow> selected env j = Received"
    by auto
  from Cons.IH[OF q'] q show ?case by (simp add: Let_def)
qed

lemma GenerateStream_undisturbed:
  assumes "GenerateRequest.Model req \<noteq> []"
    and "httpClient c (generate_request c bytes) = Responded resp"
    and "accepted resp"
    and "map unmarshal (filter (\<lambda>l. l \<noteq> []) (fst (scan_lines (Body resp)))) = map Inr evs"
    and "quiet env (length (fst (scan_lines (Body resp))))"
    and m: "marshal (GenerateBody (req\<lparr>GenerateRequest.Stream := True\<rparr>)) = Inr bytes"
  shows "GenerateStream marshal uerr unmarshal c env req =
           \<lparr>sent = [generate_request c bytes], closes = 1,
            events = upto_done GenerateResponse.Done evs,
            err = (if list_ex GenerateResponse.Done evs then None
                   else map_option (\<lambda>e. Errorf (''error reading response: '' @ e))
                          (scanner_Err resp)),
            returned = True\<rparr>"
proof -
  from assms(5) have q: "\<forall>j. 0 \<le> j \<and> j < 0 + length (fst (scan_lines (Body resp)))
      \<longrightarrow> \<not> polled env j \<and> selected env j = Received"
    by (simp add: quiet_def)
  from generate_loop_quiet[OF q assms(4), of "scanner_Err resp"]
    GenerateStream_accepted[where marshal = marshal, OF assms(1-3) m, of uerr unmarshal env]
  show ?thesis by simp
qed

lemma GenerateStream_delivers_all:
  assumes "GenerateRequest.Model req \<noteq> []"
    and "httpClient c (generate_request c bytes) = Responded resp"
    and "accepted resp"
    and "Body resp = concat (map (\<lambda>l. l @ [CHR 0x0A]) ls)"
    and "list_all (\<lambda>l. CHR 0x0A \<notin> set l \<and> length l < MaxScanTokenSize) ls"
    and "map unmarshal (filter (\<lambda>l. l \<noteq> []) (map dropCR ls)) = map Inr (evs @ [v])"
    and "list_all (\<lambda>e. \<not> GenerateResponse.Done e) evs" and "GenerateResponse.Done v"
    and "quiet env (length ls)"
    and m: "marshal (GenerateBody (req\<lparr>GenerateRequest.Stream := True\<rparr>)) = Inr bytes"
  shows "GenerateStream marshal uerr unmarshal c env req =
           \<lparr>sent = [generate_request c bytes], closes = 1, events = evs @ [v], err = None,
            returned = True\<rparr>"
proof -
  have toks: "fst (scan_lines (Body resp)) = map dropCR ls"
    using scan_lines_lines[OF assms(5)] assms(4) by simp
  have "list_ex GenerateResponse.Done (evs @ [v])" using assms(8) by simp
  with GenerateStream_undisturbed[where marshal = marshal, OF assms(1-3) _ _ m, of unmarshal "evs @ [v]" env uerr]
    toks assms(6,9) upto_done_last[OF assms(7,8)]
  show ?thesis by simp
qed

lemma GenerateStream_end_without_done:
  assumes "GenerateRequest.Model req \<noteq> []"
    and "httpClient c (generate_request c bytes) = Responded resp"
    and "accepted resp"
    and "Body resp = concat (map (\<lambda>l. l @ [CHR 0x0A]) ls)" and "BodyErr resp = None"
    and "list_all (\<lambda>l. CHR 0x0A \<notin> set l \<and> length l < MaxScanTokenSize) ls"
    and "map unmarshal (filter (\<lambda>l. l \<noteq> []) (map dropCR ls)) = map Inr evs"
    and "list_all (\<lambda>e. \<not> GenerateResponse.Done e) evs"
    and "quiet env (length ls)"
    and m: "marshal (GenerateBody (req\<lparr>GenerateRequest.Stream := True\<rparr>)) = Inr bytes"
  shows "GenerateStream marshal uerr unmarshal c env req =
           \<lparr>sent = [generate_request c bytes], closes = 1, events = evs, err = None,
            returned = True\<rparr>"
proof -
  have toks: "scan_lines (Body resp) = (map dropCR ls, False)"
    using scan_lines_lines[OF assms(6)] assms(4) by simp
  then have se: "scanner_Err resp = None" using assms(5) by (simp add: scanner_Err_def)
  have "\<not> list_ex GenerateResponse.Done evs"
    using assms(8) by (simp add: list_all_iff list_ex_iff)
  with GenerateStream_undisturbed[where marshal = marshal, OF assms(1-3) _ _ m, of unmarshal evs env uerr]
    toks se assms(7,9) upto_done_none[OF assms(8)]
  show ?thesis by simp
qed

lemma GenerateStream_decode_error:
  assumes "GenerateRequest.Model req \<noteq> []"
    and "httpClient c (generate_request c bytes) = Responded resp"
    and "accepted resp"
    and "fst (scan_lines (Body resp)) = pre @ bad # post"
    and "map unmarshal (filter (\<lambda>l. l \<noteq> []) pre) = map Inr evs"
    and "list_all (\<lambda>e. \<not> GenerateResponse.Done e) evs"
    and "bad \<noteq> []" and "unmarshal bad = Inl e"
    and "quiet env (length pre)" and "\<not> polled env (length pre)"
    and m: "marshal (GenerateBody (req\<lparr>GenerateRequest.Stream := True\<rparr>)) = Inr bytes"
  shows "GenerateStream marshal uerr unmarshal c env req =
           \<lparr>sent = [generate_request c bytes], closes = 1, events = evs,
            err = Some (Errorf (''failed to decode response: '' @ e)), returned = True\<rparr>"
proof -
  from assms(9) have q: "\<forall>j. 0 \<le> j \<and> j < 0 + length pre \<longrightarrow> \<not> polled env j \<and> selected env j = Received"
    by (simp add: quiet_def)
  have "generate_loop unmarshal env (0 + length pre) (bad # post) (scanner_Err resp)
          = ([], Returns (Some (Errorf (''failed to decode response: '' @ e))))"
    using assms(7,8,10) by simp
  with generate_loop_prefix[OF q assms(5) assms(6), of "bad # post" "scanner_Err resp"]
  have "generate_loop unmarshal env 0 (pre @ bad # post) (scanner_Err resp)
          = (evs, Returns (Some (Errorf (''failed to decode response: '' @ e))))"
    by simp
  with GenerateStream_accepted[where marshal = marshal, OF assms(1-3) m] assms(4) show ?thesis by simp
qed

lemma ChatStream_undisturbed:
  assumes "ChatRequest.Model req \<noteq> []"
    and "httpClient c (chat_request c bytes) = Responded resp"
    and "accepted resp"
    and "decoder (Body resp) (BodyErr resp) = map Inr evs"
    and "receives env (length evs)"
    and m: "marshal (ChatBody (req\<lparr>ChatRequest.Stream := True\<rparr>)) = Inr bytes"
  shows "ChatStream marshal uerr decoder c env req =
           \<lparr>sent = [chat_request c bytes], closes = 1,
            events = upto_done ChatResponse.Done evs, err = None, returned = True\<rparr>"
proof -
  from assms(5) have q: "\<forall>j. 0 \<le> j \<and> j < 0 + length evs \<longrightarrow> selected env j = Received"
    by (simp add: receives_def)
  from chat_loop_quiet[OF q] ChatStream_accepted[where marshal = marshal, OF assms(1-3) m, of uerr decoder env] assms(4)
  show ?thesis by simp
qed

lemma ChatStream_decode_error:
  assumes "ChatRequest.Model req \<noteq> []"
    and "httpClient c (chat_request c bytes) = Responded resp"
    and "accepted resp"
    and "decoder (Body resp) (BodyErr resp) = map Inr evs @ Inl e # post"
    and "list_all (\<lambda>e. \<not> ChatResponse.Done e) evs"
    and "receives env (length evs)"
    and m: "marshal (ChatBody (req\<lparr>ChatRequest.Stream := True\<rparr>)) = Inr bytes"
  shows "ChatStream marshal uerr decoder c env req =
           \<lparr>sent = [chat_request c bytes], closes = 1, events = evs,
            err = Some (Errorf (''decode error: '' @ e)), returned = True\<rparr>"
proof -
  from assms(6) have q: "\<forall>j. 0 \<le> j \<and> j < 0 + length evs \<longrightarrow> selected env j = Received"
    by (simp add: receives_def)
  from chat_loop_prefix[OF q assms(5), of "Inl e # post"]
    ChatStream_accepted[where marshal = marshal, OF assms(1-3) m, of uerr decoder env] assms(4)
  show ?thesis by simp
qed

subsection \<open>The concrete inputs\<close>

lemma example_chat_request_Model: "ChatRequest.Model (example_chat_request b) \<noteq> []"
  by (simp add: example_chat_request_def)

lemma example_chat_request_Stream:
  "(example_chat_request b)\<lparr>ChatRequest.Stream := b'\<rparr> = example_chat_request b'"
  by (simp add: example_chat_request_def)

lemma example_marshal_example_chat_request:
  "example_marshal (ChatBody (example_chat_request b)) = Inr (example_chat_request_json b)"
  by (simp add: example_marshal_def example_chat_request_def)

lemma example_marshal_chat:
  "example_marshal (ChatBody ((example_chat_request b)\<lparr>ChatRequest.Stream := b'\<rparr>))
     = Inr (example_chat_request_json b')"
  by (simp only: example_chat_request_Stream example_marshal_example_chat_request)

lemma three_values_decoded:
  "example_decoder three_values None
     = map Inr [chat_fragment False, chat_fragment False] @ Inr (chat_fragment True) # []"
  by (simp add: example_decoder_def three_values_def)

lemma fragment_Done [simp]: "GenerateResponse.Done (fragment s b) = b"
  by (simp add: fragment_def zeroGenerateResponse_def)

lemma chat_fragment_Done [simp]: "ChatResponse.Done (chat_fragment b) = b"
  by (simp add: chat_fragment_def zeroChatResponse_def)

lemma BodyErr_responding: "BodyErr (responding code ct body) = None"
  by (simp add: responding_def)

subsection \<open>Cancellation\<close>

text \<open>
  C4. The claim: if cancellation is observed after m events have been delivered,
  exactly m events are delivered, the error channel carries the context's error, no
  further event follows and the body is closed once; and cancellation is checked at
  each publish step and at each decode step. The last part does not hold for
  \<open>ChatStream\<close>, which has no check of the context before \<open>decoder.Decode\<close>: its
  outcome does not depend on what such a check would see, and with a context that is
  done before the first value is decoded and a first value that is malformed it
  reports the decode error, not the cancellation.
\<close>

lemma ChatStream_ignores_polled:
  "ChatStream marshal uerr decoder c (env\<lparr>polled := p\<rparr>) req = ChatStream marshal uerr decoder c env req"
proof -
  have "chat_loop (env\<lparr>polled := p\<rparr>) i rs = chat_loop env i rs" for i rs
    by (induction env i rs rule: chat_loop.induct) (auto simp: Let_def split: selected.splits)
  then show ?thesis by (auto simp: ChatStream_unfold split: sum.splits)
qed

theorem chat_decodes_without_checking_context:
  \<open>polled (cancelled_before 0) 0
   \<and> ChatStream example_marshal example_unmarshalErr example_decoder
       (answering (responding 200 ''application/json'' '']'')) (cancelled_before 0)
       (example_chat_request False) =
     \<lparr>sent = [chat_request (answering (responding 200 ''application/json'' '']''))
                (example_chat_request_json True)],
      closes = 1, events = [],
      err = Some (Errorf (''decode error: invalid character '' @ [CHR 0x27] @ '']'' @ [CHR 0x27]
                            @ '' looking for beginning of value'')),
      returned = True\<rparr>\<close>
proof -
  have d: \<open>example_decoder (Body (responding 200 ''application/json'' '']''))
             (BodyErr (responding 200 ''application/json'' '']''))
           = map Inr [] @ Inl (invalid_character (CHR '']'') ''looking for beginning of value'') # []\<close>
    by (simp add: example_decoder_def responding_def)
  have r: "receives (cancelled_before 0) (length ([] :: ChatResponse list))"
    by (simp add: receives_def)
  have l: "list_all (\<lambda>e. \<not> ChatResponse.Done e) []" by simp
  from ChatStream_decode_error[where evs = "[]" and post = "[]" and env = "cancelled_before 0"
      and decoder = example_decoder and resp = \<open>responding 200 ''application/json'' '']''\<close>
      and marshal = example_marshal,
      OF example_chat_request_Model answering_responds accepted_json d l r example_marshal_chat]
  show ?thesis by (simp add: cancelled_before_def invalid_character_def)
qed

text \<open>
  C4, as amended: if cancellation is observed after m values have been delivered,
  the caller has received exactly these m values, the error channel carries
  \<open>ctx.Err()\<close>, the goroutine returns (no further value is sent, both channels are
  closed) and the body is closed once. \<open>GenerateStream\<close> observes cancellation at the
  top of each iteration, before the line is decoded (\<open>polled\<close>), and in the
  \<open>select\<close> around the send (\<open>selected\<close>); \<open>ChatStream\<close> observes it in the
  \<open>select\<close> around the send only. The session is one whose request \<open>json.Marshal\<close>
  has encoded (to \<open>bytes\<close>) and whose response \<open>requestStream\<close> has accepted. In the
  statement \<open>pre\<close> are the lines of the iterations that ran undisturbed and \<open>evs\<close>
  the m values decoded from them; \<open>line\<close> is the line of the iteration in which the
  cancellation is observed.
\<close>

theorem cancellation_ends_the_stream:
  "(GenerateRequest.Model req \<noteq> []
      \<and> marshal (GenerateBody (req\<lparr>GenerateRequest.Stream := True\<rparr>)) = Inr bytes
      \<and> httpClient c (generate_request c bytes) = Responded resp \<and> accepted resp
      \<and> fst (scan_lines (Body resp)) = pre @ line # post
      \<and> map unmarshal (filter (\<lambda>l. l \<noteq> []) pre) = map Inr evs
      \<and> list_all (\<lambda>e. \<not> GenerateResponse.Done e) evs
      \<and> quiet env (length pre)
      \<and> (polled env (length pre)
          \<or> (line \<noteq> [] \<and> unmarshal line = Inr v \<and> selected env (length pre) = CtxDone))
    \<longrightarrow> GenerateStream marshal uerr unmarshal c env req =
          \<lparr>sent = [generate_request c bytes], closes = 1, events = evs,
           err = Some (ContextError (ctxErr env)), returned = True\<rparr>)
   \<and> (ChatRequest.Model creq \<noteq> []
      \<and> marshal (ChatBody (creq\<lparr>ChatRequest.Stream := True\<rparr>)) = Inr cbytes
      \<and> httpClient c (chat_request c cbytes) = Responded cresp \<and> accepted cresp
      \<and> decoder (Body cresp) (BodyErr cresp) = map Inr cevs @ Inr cv # cpost
      \<and> list_all (\<lambda>e. \<not> ChatResponse.Done e) cevs
      \<and> receives env (length cevs)
      \<and> selected env (length cevs) = CtxDone
    \<longrightarrow> ChatStream marshal uerr decoder c env creq =
          \<lparr>sent = [chat_request c cbytes], closes = 1, events = cevs,
           err = Some (ContextError (ctxErr env)), returned = True\<rparr>)"
proof (intro conjI impI)
  assume "GenerateRequest.Model req \<noteq> []
      \<and> marshal (GenerateBody (req\<lparr>GenerateRequest.Stream := True\<rparr>)) = Inr bytes
      \<and> httpClient c (generate_request c bytes) = Responded resp \<and> accepted resp
      \<and> fst (scan_lines (Body resp)) = pre @ line # post
      \<and> map unmarshal (filter (\<lambda>l. l \<noteq> []) pre) = map Inr evs
      \<and> list_all (\<lambda>e. \<not> GenerateResponse.Done e) evs
      \<and> quiet env (length pre)
      \<and> (polled env (length pre)
          \<or> (line \<noteq> [] \<and> unmarshal line = Inr v \<and> selected env (length pre) = CtxDone))"
  then show "GenerateStream marshal uerr unmarshal c env req =
          \<lparr>sent = [generate_request c bytes], closes = 1, events = evs,
           err = Some (ContextError (ctxErr env)), returned = True\<rparr>"
    by (intro GenerateStream_cancelled[where resp = resp and pre = pre and line = line
          and post = post and v = v and marshal = marshal]) simp_all
next
  assume "ChatRequest.Model creq \<noteq> []
      \<and> marshal (ChatBody (creq\<lparr>ChatRequest.Stream := True\<rparr>)) = Inr cbytes
      \<and> httpClient c (chat_request c cbytes) = Responded cresp \<and> accepted cresp
      \<and> decoder (Body cresp) (BodyErr cresp) = map Inr cevs @ Inr cv # cpost
      \<and> list_all (\<lambda>e. \<not> ChatResponse.Done e) cevs
      \<and> receives env (length cevs)
      \<and> selected env (length cevs) = CtxDone"
  then show "ChatStream marshal uerr decoder c env creq =
          \<lparr>sent = [chat_request c cbytes], closes = 1, events = cevs,
           err = Some (ContextError (ctxErr env)), returned = True\<rparr>"
    by (intro ChatStream_cancelled[where resp = cresp and v = cv and post = cpost
          and marshal = marshal]) simp_all
qed

theorem cancellation_ends_the_stream_witness:
  \<open>GenerateStream example_marshal example_unmarshalErr example_unmarshal
      (answering (responding 200 ''application/x-ndjson'' three_lines)) (cancelled_in 1)
      (example_request False) =
    \<lparr>sent = [generate_request (answering (responding 200 ''application/x-ndjson'' three_lines))
               (example_request_json True)],
     closes = 1, events = [fragment ''Hel'' False],
     err = Some (ContextError Canceled), returned = True\<rparr>
   \<and> GenerateStream example_marshal example_unmarshalErr example_unmarshal
      (answering (responding 200 ''application/x-ndjson'' three_lines)) (cancelled_before 2)
      (example_request False) =
    \<lparr>sent = [generate_request (answering (responding 200 ''application/x-ndjson'' three_lines))
               (example_request_json True)],
     closes = 1, events = [fragment ''Hel'' False, fragment ''lo'' False],
     err = Some (ContextError Canceled), returned = True\<rparr>
   \<and> ChatStream example_marshal example_unmarshalErr example_decoder
      (answering (responding 200 ''application/json'' three_values)) (cancelled_in 2)
      (example_chat_request False) =
    \<lparr>sent = [chat_request (answering (responding 200 ''application/json'' three_values))
               (example_chat_request_json True)],
     closes = 1, events = [chat_fragment False, chat_fragment False],
     err = Some (ContextError Canceled), returned = True\<rparr>\<close>
proof (intro conjI)
  let ?c = "answering (responding 200 ''application/x-ndjson'' three_lines)"
  have toks: \<open>fst (scan_lines (Body (responding 200 ''application/x-ndjson'' three_lines)))
      = [''{"response":"Hel"}''] @ ''{"response":"lo"}'' # [[], ''{"done":true}'']\<close>
    by (simp add: Body_responding scan_three_lines)
  have toks2: \<open>fst (scan_lines (Body (responding 200 ''application/x-ndjson'' three_lines)))
      = [''{"response":"Hel"}'', ''{"response":"lo"}''] @ [] # [''{"done":true}'']\<close>
    by (simp add: Body_responding scan_three_lines)
  have u1: \<open>map example_unmarshal (filter (\<lambda>l. l \<noteq> []) [''{"response":"Hel"}''])
      = map Inr [fragment ''Hel'' False]\<close>
    by (simp add: example_unmarshal_def)
  have u2: \<open>map example_unmarshal (filter (\<lambda>l. l \<noteq> []) [''{"response":"Hel"}'', ''{"response":"lo"}''])
      = map Inr [fragment ''Hel'' False, fragment ''lo'' False]\<close>
    by (simp add: example_unmarshal_def)
  have u3: \<open>example_unmarshal ''{"response":"lo"}'' = Inr (fragment ''lo'' False)\<close>
    by (simp add: example_unmarshal_def)
  have q1: "quiet (cancelled_in 1) (length [''x''])" "selected (cancelled_in 1) (length [''x'']) = CtxDone"
    by (simp_all add: quiet_def cancelled_in_def)
  have q2: "quiet (cancelled_before 2) (length [''x'', ''y''])" "polled (cancelled_before 2) (length [''x'', ''y''])"
    by (simp_all add: quiet_def cancelled_before_def)
  show \<open>GenerateStream example_marshal example_unmarshalErr example_unmarshal ?c (cancelled_in 1)
      (example_request False) =
    \<lparr>sent = [generate_request ?c (example_request_json True)],
     closes = 1, events = [fragment ''Hel'' False],
     err = Some (ContextError Canceled), returned = True\<rparr>\<close>
    using cancellation_ends_the_stream[THEN conjunct1, rule_format,
        where c = ?c and req = "example_request False" and env = "cancelled_in 1"
          and unmarshal = example_unmarshal and uerr = example_unmarshalErr
          and marshal = example_marshal,
        OF conjI[OF example_request_Model conjI[OF example_marshal_generate
           conjI[OF answering_responds conjI[OF accepted_ndjson conjI[OF toks conjI[OF u1]]]]]]]
      u3 q1
    by (simp add: cancelled_in_def)
  show \<open>GenerateStream example_marshal example_unmarshalErr example_unmarshal ?c (cancelled_before 2)
      (example_request False) =
    \<lparr>sent = [generate_request ?c (example_request_json True)],
     closes = 1, events = [fragment ''Hel'' False, fragment ''lo'' False],
     err = Some (ContextError Canceled), returned = True\<rparr>\<close>
    using cancellation_ends_the_stream[THEN conjunct1, rule_format,
        where c = ?c and req = "example_request False" and env = "cancelled_before 2"
          and unmarshal = example_unmarshal and uerr = example_unmarshalErr
          and marshal = example_marshal,
        OF conjI[OF example_request_Model conjI[OF example_marshal_generate
           conjI[OF answering_responds conjI[OF accepted_ndjson conjI[OF toks2 conjI[OF u2]]]]]]]
      q2
    by (simp add: cancelled_before_def)
  let ?d = "answering (responding 200 ''application/json'' three_values)"
  have q3: "receives (cancelled_in 2) (length [chat_fragment False, chat_fragment False])"
    "selected (cancelled_in 2) (length [chat_fragment False, chat_fragment False]) = CtxDone"
    by (simp_all add: receives_def cancelled_in_def)
  show \<open>ChatStream example_marshal example_unmarshalErr example_decoder ?d (cancelled_in 2)
      (example_chat_request False) =
    \<lparr>sent = [chat_request ?d (example_chat_request_json True)],
     closes = 1, events = [chat_fragment False, chat_fragment False],
     err = Some (ContextError Canceled), returned = True\<rparr>\<close>
    using cancellation_ends_the_stream[THEN conjunct2, rule_format,
        where c = ?d and creq = "example_chat_request False" and env = "cancelled_in 2"
          and decoder = example_decoder and uerr = example_unmarshalErr
          and marshal = example_marshal and cbytes = "example_chat_request_json True"
          and cresp = "responding 200 ''application/json'' three_values"
          and cevs = "[chat_fragment False, chat_fragment False]" and cv = "chat_fragment True"
          and cpost = "[]"]
      example_chat_request_Model example_marshal_chat answering_responds accepted_json
      three_values_decoded q3
    by (simp add: cancelled_in_def Body_responding BodyErr_responding)
qed

subsection \<open>GenerateStream and a record longer than the scanner's buffer\<close>

text \<open>
  C1. For a valid NDJSON body of N records whose last record has \<open>done=true\<close>,
  \<open>GenerateStream\<close> is to deliver the N records in order and end without an error.
  It does not when a record is longer than the buffer of \<open>bufio.NewScanner\<close>: here
  the body is one valid record with \<open>done=true\<close> whose line has more than
  \<open>MaxScanTokenSize\<close> bytes. Whatever \<open>json.Unmarshal\<close> and the caller do, the caller
  receives nothing and the error channel carries the scanner's error.
\<close>

theorem long_final_record_is_lost:
  \<open>GenerateStream example_marshal uerr unmarshal
     (answering (responding 200 ''application/x-ndjson''
        ((''{"response":"'' @ replicate MaxScanTokenSize (CHR ''a'')) @ ''","done":true}\<newline>'')))
     env (example_request False) =
   \<lparr>sent = [generate_request
              (answering (responding 200 ''application/x-ndjson''
                 ((''{"response":"'' @ replicate MaxScanTokenSize (CHR ''a'')) @ ''","done":true}\<newline>'')))
              (example_request_json True)],
    closes = 1, events = [],
    err = Some (Errorf ''error reading response: bufio.Scanner: token too long''),
    returned = True\<rparr>\<close>
proof -
  have nl: \<open>CHR 0x0A \<notin> set (''{"response":"'' @ replicate MaxScanTokenSize (CHR ''a''))\<close>
    by (simp only: long_line) simp
  show ?thesis
    by (rule GenerateStream_token_too_long[where marshal = example_marshal,
          OF example_request_Model answering_responds accepted_ndjson Body_responding nl
          long_line(2) example_marshal_generate])
qed

text \<open>
  C2. For a body whose k-th record is malformed after k-1 well-formed ones,
  the caller is to receive k-1 values and then a decode error. With a first record (a
  well-formed one without \<open>done\<close>) longer than the scanner's buffer and a malformed
  second line, \<open>GenerateStream\<close> delivers no value and reports the scanner's error
  instead of the decode error.
\<close>

theorem long_record_before_malformed_one:
  \<open>GenerateStream example_marshal uerr unmarshal
     (answering (responding 200 ''application/x-ndjson''
        ((''{"response":"'' @ replicate MaxScanTokenSize (CHR ''a''))
           @ ''"}\<newline>{"response":\<newline>'')))
     env (example_request False) =
   \<lparr>sent = [generate_request
              (answering (responding 200 ''application/x-ndjson''
                 ((''{"response":"'' @ replicate MaxScanTokenSize (CHR ''a''))
                    @ ''"}\<newline>{"response":\<newline>'')))
              (example_request_json True)],
    closes = 1, events = [],
    err = Some (Errorf ''error reading response: bufio.Scanner: token too long''),
    returned = True\<rparr>\<close>
proof -
  have nl: \<open>CHR 0x0A \<notin> set (''{"response":"'' @ replicate MaxScanTokenSize (CHR ''a''))\<close>
    by (simp only: long_line) simp
  show ?thesis
    by (rule GenerateStream_token_too_long[where marshal = example_marshal,
          OF example_request_Model answering_responds accepted_ndjson Body_responding nl
          long_line(2) example_marshal_generate])
qed

text \<open>
  C3. A body that ends without a record carrying \<open>done=true\<close> is to be delivered
  whole, without an error. With a single well-formed record longer than the scanner's
  buffer and then the end of the body, \<open>GenerateStream\<close> delivers no value and sends
  an error.
\<close>

theorem long_record_without_done:
  \<open>GenerateStream example_marshal uerr unmarshal
     (answering (responding 200 ''application/x-ndjson''
        ((''{"response":"'' @ replicate MaxScanTokenSize (CHR ''a'')) @ ''"}\<newline>'')))
     env (example_request False) =
   \<lparr>sent = [generate_request
              (answering (responding 200 ''application/x-ndjson''
                 ((''{"response":"'' @ replicate MaxScanTokenSize (CHR ''a'')) @ ''"}\<newline>'')))
              (example_request_json True)],
    closes = 1, events = [],
    err = Some (Errorf ''error reading response: bufio.Scanner: token too long''),
    returned = True\<rparr>\<close>
proof -
  have nl: \<open>CHR 0x0A \<notin> set (''{"response":"'' @ replicate MaxScanTokenSize (CHR ''a''))\<close>
    by (simp only: long_line) simp
  show ?thesis
    by (rule GenerateStream_token_too_long[where marshal = example_marshal,
          OF example_request_Model answering_responds accepted_ndjson Body_responding nl
          long_line(2) example_marshal_generate])
qed

subsection \<open>request and requestStream: the status code\<close>

text \<open>
  C5. The claim takes every status in the 2xx range for a success. The code tests
  \<open>resp.StatusCode != http.StatusOK\<close>: a response with status 201 is turned into a
  \<open>ResponseError\<close> by \<open>request\<close> and by \<open>requestStream\<close>.
\<close>

theorem created_is_a_ResponseError:
  \<open>result (request example_marshal example_unmarshalErr
             (answering (responding 201 ''application/json'' ''created''))
             ''POST'' ''/api/generate'' (Some (GenerateBody (example_request False)))
             (Some example_decode) False)
     = Inl (ResponseError 201 ''created'')
   \<and> result (requestStream example_marshal example_unmarshalErr
               (answering (responding 201 ''application/json'' ''created''))
               ''POST'' ''/api/generate'' (Some (GenerateBody (example_request True))))
     = Inl (ResponseError 201 ''created'')\<close>
  by (simp add: request_def requestStream_def bodyReader_def example_marshal_example_request
        answering_def responding_def errorResponse_def example_unmarshalErr_def Let_def)

text \<open>
  C5, as amended: when the request is sent (\<open>json.Marshal\<close> has encoded its body,
  if it has one) and a response arrives whose status is not 200 and whose body is
  read to its end, both functions return a \<open>ResponseError\<close> with the status code and,
  as message, the \<open>error\<close> field of the body when \<open>json.Unmarshal\<close> succeeds and the
  field is not empty, and the raw body otherwise; for status 200 neither returns a
  \<open>ResponseError\<close>.
\<close>

theorem status_other_than_200_is_a_ResponseError:
  "bodyReader marshal body = Inr bytes
     \<and> httpClient c (newRequest c verb path bytes) = Responded resp \<longrightarrow>
     (StatusCode resp \<noteq> 200 \<and> BodyErr resp = None \<longrightarrow>
        (\<forall>m. unmarshalErr (Body resp) = Inr m \<and> m \<noteq> [] \<longrightarrow>
           result (request marshal unmarshalErr c verb path body response stream)
             = Inl (ResponseError (StatusCode resp) m)
           \<and> result (requestStream marshal unmarshalErr c verb path body)
             = Inl (ResponseError (StatusCode resp) m))
        \<and> ((\<forall>m. unmarshalErr (Body resp) = Inr m \<longrightarrow> m = []) \<longrightarrow>
           result (request marshal unmarshalErr c verb path body response stream)
             = Inl (ResponseError (StatusCode resp) (Body resp))
           \<and> result (requestStream marshal unmarshalErr c verb path body)
             = Inl (ResponseError (StatusCode resp) (Body resp))))
     \<and> (StatusCode resp = 200 \<longrightarrow>
        (\<forall>code msg. result (request marshal unmarshalErr c verb path body response stream)
                       \<noteq> Inl (ResponseError code msg))
        \<and> (\<forall>code msg. result (requestStream marshal unmarshalErr c verb path body)
                       \<noteq> Inl (ResponseError code msg)))"
  by (auto simp: request_def requestStream_def errorResponse_def Let_def
           split: option.splits sum.splits)

theorem status_other_than_200_is_a_ResponseError_witness:
  \<open>result (request example_marshal example_unmarshalErr
             (answering (responding 404 ''application/json'' ''{"error":"model not found"}''))
             ''POST'' ''/api/generate'' (Some (GenerateBody (example_request False)))
             (Some example_decode) False)
     = Inl (ResponseError 404 ''model not found'')
   \<and> result (requestStream example_marshal example_unmarshalErr
               (answering (responding 404 ''application/json'' ''{"error":"model not found"}''))
               ''POST'' ''/api/generate'' (Some (GenerateBody (example_request False))))
     = Inl (ResponseError 404 ''model not found'')
   \<and> result (requestStream example_marshal example_unmarshalErr
               (answering (responding 500 ''text/plain'' ''out of memory''))
               ''POST'' ''/api/generate'' (Some (GenerateBody (example_request True))))
     = Inl (ResponseError 500 ''out of memory'')
   \<and> result (request example_marshal example_unmarshalErr
               (answering (responding 200 ''application/json'' ''{"response":"Hello","done":true}''))
               ''POST'' ''/api/generate'' (Some (GenerateBody (example_request False)))
               (Some example_decode) False)
     = Inr (Some (fragment ''Hello'' True))\<close>
proof -
  let ?notfound = \<open>responding 404 ''application/json'' ''{"error":"model not found"}''\<close>
  let ?oom = \<open>responding 500 ''text/plain'' ''out of memory''\<close>
  let ?ok = \<open>responding 200 ''application/json'' ''{"response":"Hello","done":true}''\<close>
  have e1: \<open>example_unmarshalErr (Body ?notfound) = Inr ''model not found''\<close>
    by (simp add: example_unmarshalErr_def responding_def)
  have e2: \<open>\<forall>m. example_unmarshalErr (Body ?oom) = Inr m \<longrightarrow> m = []\<close>
    by (simp add: example_unmarshalErr_def responding_def)
  have s: "StatusCode (responding k ct b) = k" "BodyErr (responding k ct b) = None" for k ct b
    by (simp_all add: responding_def)
  have r: "bodyReader example_marshal (Some (GenerateBody (example_request b)))
             = Inr (Some (example_request_json b))" for b
    by (simp add: bodyReader_def example_marshal_example_request)
  have a: \<open>result (request example_marshal example_unmarshalErr (answering ?notfound)
             ''POST'' ''/api/generate'' (Some (GenerateBody (example_request False)))
             (Some example_decode) False)
             = Inl (ResponseError 404 ''model not found'')
           \<and> result (requestStream example_marshal example_unmarshalErr (answering ?notfound)
               ''POST'' ''/api/generate'' (Some (GenerateBody (example_request False))))
             = Inl (ResponseError 404 ''model not found'')\<close>
    using status_other_than_200_is_a_ResponseError[where c = "answering ?notfound"
        and resp = ?notfound and unmarshalErr = example_unmarshalErr and verb = "''POST''"
        and path = "''/api/generate''" and body = "Some (GenerateBody (example_request False))"
        and marshal = example_marshal and bytes = "Some (example_request_json False)"
        and response = "Some example_decode" and stream = False] e1
    by (simp add: answering_responds s r)
  have b: \<open>result (requestStream example_marshal example_unmarshalErr (answering ?oom)
               ''POST'' ''/api/generate'' (Some (GenerateBody (example_request True))))
             = Inl (ResponseError 500 ''out of memory'')\<close>
    using status_other_than_200_is_a_ResponseError[where c = "answering ?oom"
        and resp = ?oom and unmarshalErr = example_unmarshalErr and verb = "''POST''"
        and path = "''/api/generate''" and body = "Some (GenerateBody (example_request True))"
        and marshal = example_marshal and bytes = "Some (example_request_json True)"
        and response = "Some example_decode" and stream = False] e2
    by (simp add: answering_responds s r Body_responding)
  have c: \<open>result (request example_marshal example_unmarshalErr (answering ?ok)
               ''POST'' ''/api/generate'' (Some (GenerateBody (example_request False)))
               (Some example_decode) False)
     = Inr (Some (fragment ''Hello'' True))\<close>
    by (simp add: request_def r answering_def responding_def example_decode_def Let_def)
  from a b c show ?thesis by simp
qed

subsection \<open>requestStream: the content type\<close>

text \<open>
  C6. A response with status 200 whose content type names neither JSON nor NDJSON
  makes \<open>requestStream\<close> fail, but not with a \<open>ResponseError\<close>: the error is made by
  \<open>fmt.Errorf\<close> and carries no status code. (A response with another 2xx status
  never reaches the check of the content type, see C5.)
\<close>

theorem text_plain_is_no_ResponseError:
  \<open>requestStream example_marshal example_unmarshalErr
      (answering (responding 200 ''text/plain'' ''hello''))
      ''POST'' ''/api/generate'' (Some (GenerateBody (example_request True))) =
    \<lparr>sent = [newRequest (answering (responding 200 ''text/plain'' ''hello''))
               ''POST'' ''/api/generate'' (Some (example_request_json True))],
     closes = 0, result = Inl (Errorf ''unexpected content type: text/plain'')\<rparr>
   \<and> \<not> is_ResponseError (Errorf ''unexpected content type: text/plain'')\<close>
  by (simp add: requestStream_def bodyReader_def example_marshal_example_request
        answering_def responding_def Let_def HasPrefix_def)

text \<open>
  C6, as amended: when the request is sent (\<open>json.Marshal\<close> has encoded its body,
  if it has one) and the response has status 200, \<open>requestStream\<close> fails with the
  error "unexpected content type: ..." when the content type contains neither
  \<open>application/json\<close> nor \<open>application/x-ndjson\<close>, and returns the response when it
  contains one of them.
\<close>

theorem content_type_of_a_200_response:
  "bodyReader marshal body = Inr bytes
     \<and> httpClient c (newRequest c verb path bytes) = Responded resp
     \<and> StatusCode resp = 200 \<longrightarrow>
     (\<not> Contains (ContentType resp) ''application/json''
        \<and> \<not> Contains (ContentType resp) ''application/x-ndjson''
      \<longrightarrow> result (requestStream marshal unmarshalErr c verb path body)
            = Inl (Errorf (''unexpected content type: '' @ ContentType resp)))
     \<and> (Contains (ContentType resp) ''application/json''
        \<or> Contains (ContentType resp) ''application/x-ndjson''
      \<longrightarrow> result (requestStream marshal unmarshalErr c verb path body) = Inr resp)"
  by (auto simp: requestStream_def Let_def)

theorem content_type_of_a_200_response_witness:
  \<open>result (requestStream example_marshal example_unmarshalErr
             (answering (responding 200 ''text/html'' ''<html>''))
             ''POST'' ''/api/chat'' (Some (ChatBody (example_chat_request True))))
     = Inl (Errorf ''unexpected content type: text/html'')
   \<and> result (requestStream example_marshal example_unmarshalErr
               (answering (responding 200 ''application/x-ndjson; charset=utf-8'' three_lines))
               ''POST'' ''/api/generate'' (Some (GenerateBody (example_request True))))
     = Inr (responding 200 ''application/x-ndjson; charset=utf-8'' three_lines)\<close>
proof -
  let ?html = \<open>responding 200 ''text/html'' ''<html>''\<close>
  let ?nd = \<open>responding 200 ''application/x-ndjson; charset=utf-8'' three_lines\<close>
  have s: "StatusCode (responding k ct b) = k" "ContentType (responding k ct b) = ct" for k ct b
    by (simp_all add: responding_def)
  have h: \<open>\<not> Contains ''text/html'' ''application/json''\<close>
    \<open>\<not> Contains ''text/html'' ''application/x-ndjson''\<close>
    \<open>Contains ''application/x-ndjson; charset=utf-8'' ''application/x-ndjson''\<close>
    by (simp_all add: HasPrefix_def)
  have r: "bodyReader example_marshal (Some (GenerateBody (example_request b)))
             = Inr (Some (example_request_json b))"
    "bodyReader example_marshal (Some (ChatBody (example_chat_request b)))
             = Inr (Some (example_chat_request_json b))" for b
    by (simp_all add: bodyReader_def example_marshal_example_request
          example_marshal_example_chat_request)
  have a: \<open>result (requestStream example_marshal example_unmarshalErr (answering ?html)
             ''POST'' ''/api/chat'' (Some (ChatBody (example_chat_request True))))
     = Inl (Errorf ''unexpected content type: text/html'')\<close>
    using content_type_of_a_200_response[where c = "answering ?html" and resp = ?html
        and verb = "''POST''" and path = "''/api/chat''"
        and body = "Some (ChatBody (example_chat_request True))"
        and marshal = example_marshal and bytes = "Some (example_chat_request_json True)"
        and unmarshalErr = example_unmarshalErr] h
    by (simp add: answering_responds s r HasPrefix_def)
  have b: \<open>result (requestStream example_marshal example_unmarshalErr (answering ?nd)
             ''POST'' ''/api/generate'' (Some (GenerateBody (example_request True))))
     = Inr ?nd\<close>
    using content_type_of_a_200_response[where c = "answering ?nd" and resp = ?nd
        and verb = "''POST''" and path = "''/api/generate''"
        and body = "Some (GenerateBody (example_request True))"
        and marshal = example_marshal and bytes = "Some (example_request_json True)"
        and unmarshalErr = example_unmarshalErr] h
    by (simp add: answering_responds s r HasPrefix_def)
  from a b show ?thesis by simp
qed

subsection \<open>The framing\<close>

text \<open>
  C7. The claim has the framing chosen from the content type of the response.
  The code never reads the content type after \<open>requestStream\<close> has accepted it:
  \<open>GenerateStream\<close> always splits the body into lines. With the content type
  \<open>application/json\<close> and two values on one line, where a decoder of successive
  values would yield both, it hands the whole line to \<open>json.Unmarshal\<close> and ends with
  a decode error.
\<close>

theorem json_content_type_is_read_by_lines:
  \<open>GenerateStream example_marshal example_unmarshalErr example_unmarshal
      (answering (responding 200 ''application/json'' ''{"response":"Hel"}{"done":true}''))
      receiving (example_request False) =
    \<lparr>sent = [generate_request
               (answering (responding 200 ''application/json'' ''{"response":"Hel"}{"done":true}''))
               (example_request_json True)],
     closes = 1, events = [],
     err = Some (Errorf (''failed to decode response: invalid character '' @ [CHR 0x27] @ ''{''
                           @ [CHR 0x27] @ '' after top-level value'')),
     returned = True\<rparr>\<close>
proof -
  let ?r = \<open>responding 200 ''application/json'' ''{"response":"Hel"}{"done":true}''\<close>
  have toks: \<open>fst (scan_lines (Body ?r)) = [] @ ''{"response":"Hel"}{"done":true}'' # []\<close>
    by (simp add: Body_responding scan_lines.simps MaxScanTokenSize_def dropCR_def)
  have bad: \<open>example_unmarshal ''{"response":"Hel"}{"done":true}''
               = Inl (invalid_character (CHR ''{'') ''after top-level value'')\<close>
    by (simp add: example_unmarshal_def)
  have q: "quiet receiving (length ([] :: string list))" "\<not> polled receiving (length ([] :: string list))"
    by (simp_all add: quiet_def receiving_def)
  from GenerateStream_decode_error[where resp = ?r and pre = "[]" and post = "[]" and evs = "[]"
      and unmarshal = example_unmarshal and env = receiving and c = "answering ?r"
      and req = "example_request False" and uerr = example_unmarshalErr
      and marshal = example_marshal and bytes = "example_request_json True"
      and bad = \<open>''{"response":"Hel"}{"done":true}''\<close>
      and e = "invalid_character (CHR ''{'') ''after top-level value''"]
    example_request_Model answering_responds accepted_json toks bad q example_marshal_generate
  show ?thesis by (simp add: invalid_character_def)
qed

lemma finish_eq:
  "finish r x =
     \<lparr>sent = sent r,
      closes = closes r + (case snd x of Returns e \<Rightarrow> 1 | Blocks \<Rightarrow> 0),
      events = fst x,
      err = (case snd x of Returns e \<Rightarrow> e | Blocks \<Rightarrow> None),
      returned = (case snd x of Returns e \<Rightarrow> True | Blocks \<Rightarrow> False)\<rparr>"
  by (cases x; cases "snd x") auto

lemma GenerateStream_content_type:
  assumes "accepted (resp\<lparr>ContentType := ct\<rparr>)" and "accepted (resp\<lparr>ContentType := ct'\<rparr>)"
  shows "GenerateStream marshal uerr unmarshal
           (c\<lparr>httpClient := (\<lambda>h. Responded (resp\<lparr>ContentType := ct\<rparr>))\<rparr>) env req
         = GenerateStream marshal uerr unmarshal
             (c\<lparr>httpClient := (\<lambda>h. Responded (resp\<lparr>ContentType := ct'\<rparr>))\<rparr>) env req"
proof -
  let ?c = "c\<lparr>httpClient := (\<lambda>h. Responded (resp\<lparr>ContentType := ct\<rparr>))\<rparr>"
  let ?c' = "c\<lparr>httpClient := (\<lambda>h. Responded (resp\<lparr>ContentType := ct'\<rparr>))\<rparr>"
  have n: "newRequest ?c v p b = newRequest ?c' v p b" for v p b
    by (simp add: newRequest_def)
  have se: "scanner_Err (resp\<lparr>ContentType := ct\<rparr>) = scanner_Err (resp\<lparr>ContentType := ct'\<rparr>)"
    by (simp add: scanner_Err_def)
  show ?thesis
  proof (cases "GenerateRequest.Model req = []")
    case True
    then show ?thesis by (simp add: GenerateStream_unfold)
  next
    case False
    show ?thesis
    proof (cases "marshal (GenerateBody (req\<lparr>GenerateRequest.Stream := True\<rparr>))")
      case (Inl e)
      then show ?thesis
        by (simp add: GenerateStream_unfold requestStream_def bodyReader_def)
    next
      case (Inr bytes)
      from GenerateStream_accepted[where marshal = marshal and c = ?c and bytes = bytes
          and resp = "resp\<lparr>ContentType := ct\<rparr>" and uerr = uerr and unmarshal = unmarshal
          and env = env, OF False _ assms(1) Inr]
        GenerateStream_accepted[where marshal = marshal and c = ?c' and bytes = bytes
          and resp = "resp\<lparr>ContentType := ct'\<rparr>" and uerr = uerr and unmarshal = unmarshal
          and env = env, OF False _ assms(2) Inr]
        n se
      show ?thesis by (simp add: generate_request_def finish_eq)
    qed
  qed
qed

lemma ChatStream_content_type:
  assumes "accepted (resp\<lparr>ContentType := ct\<rparr>)" and "accepted (resp\<lparr>ContentType := ct'\<rparr>)"
  shows "ChatStream marshal uerr decoder
           (c\<lparr>httpClient := (\<lambda>h. Responded (resp\<lparr>ContentType := ct\<rparr>))\<rparr>) env req
         = ChatStream marshal uerr decoder
             (c\<lparr>httpClient := (\<lambda>h. Responded (resp\<lparr>ContentType := ct'\<rparr>))\<rparr>) env req"
proof -
  let ?c = "c\<lparr>httpClient := (\<lambda>h. Responded (resp\<lparr>ContentType := ct\<rparr>))\<rparr>"
  let ?c' = "c\<lparr>httpClient := (\<lambda>h. Responded (resp\<lparr>ContentType := ct'\<rparr>))\<rparr>"
  have n: "newRequest ?c v p b = newRequest ?c' v p b" for v p b
    by (simp add: newRequest_def)
  show ?thesis
  proof (cases "ChatRequest.Model req = []")
    case True
    then show ?thesis by (simp add: ChatStream_unfold)
  next
    case False
    show ?thesis
    proof (cases "marshal (ChatBody (req\<lparr>ChatRequest.Stream := True\<rparr>))")
      case (Inl e)
      then show ?thesis
        by (simp add: ChatStream_unfold requestStream_def bodyReader_def)
    next
      case (Inr bytes)
      from ChatStream_accepted[where marshal = marshal and c = ?c and bytes = bytes
          and resp = "resp\<lparr>ContentType := ct\<rparr>" and uerr = uerr and decoder = decoder
          and env = env, OF False _ assms(1) Inr]
        ChatStream_accepted[where marshal = marshal and c = ?c' and bytes = bytes
          and resp = "resp\<lparr>ContentType := ct'\<rparr>" and uerr = uerr and decoder = decoder
          and env = env, OF False _ assms(2) Inr]
        n
      show ?thesis by (simp add: chat_request_def finish_eq)
    qed
  qed
qed

text \<open>
  C7, as amended: the framing is fixed per operation, whichever of the two content
  types the accepted response has. \<open>GenerateStream\<close> reads lines: when the body is
  made of the lines \<open>ls\<close>, each ended by a newline and shorter than the scanner's
  buffer, and \<open>json.Unmarshal\<close> decodes each non-empty line (less a carriage return
  at its end) to a value, the caller that is not disturbed receives these values,
  in order, up to the first one that is done. \<open>ChatStream\<close> reads the values of one
  \<open>json.Decoder\<close> over the whole body: when its \<open>Decode\<close> calls return the values
  \<open>cevs\<close> and then \<open>io.EOF\<close>, the caller that receives receives them, in order, up to
  the first one that is done. And two responses that differ in the accepted content
  type only give the same outcome.
\<close>

theorem framing_is_fixed_per_operation:
  "(GenerateRequest.Model req \<noteq> []
      \<and> marshal (GenerateBody (req\<lparr>GenerateRequest.Stream := True\<rparr>)) = Inr bytes
      \<and> httpClient c (generate_request c bytes) = Responded resp
      \<and> StatusCode resp = 200
      \<and> (Contains (ContentType resp) ''application/json''
          \<or> Contains (ContentType resp) ''application/x-ndjson'')
      \<and> Body resp = concat (map (\<lambda>l. l @ [CHR 0x0A]) ls)
      \<and> list_all (\<lambda>l. CHR 0x0A \<notin> set l \<and> length l < MaxScanTokenSize) ls
      \<and> map unmarshal (filter (\<lambda>l. l \<noteq> []) (map dropCR ls)) = map Inr evs
      \<and> quiet env (length ls)
    \<longrightarrow> events (GenerateStream marshal uerr unmarshal c env req)
          = upto_done GenerateResponse.Done evs)
   \<and> (ChatRequest.Model creq \<noteq> []
      \<and> marshal (ChatBody (creq\<lparr>ChatRequest.Stream := True\<rparr>)) = Inr cbytes
      \<and> httpClient c (chat_request c cbytes) = Responded cresp
      \<and> StatusCode cresp = 200
      \<and> (Contains (ContentType cresp) ''application/json''
          \<or> Contains (ContentType cresp) ''application/x-ndjson'')
      \<and> decoder (Body cresp) (BodyErr cresp) = map Inr cevs
      \<and> receives env (length cevs)
    \<longrightarrow> events (ChatStream marshal uerr decoder c env creq)
          = upto_done ChatResponse.Done cevs)
   \<and> (accepted (r\<lparr>ContentType := ct\<rparr>) \<and> accepted (r\<lparr>ContentType := ct'\<rparr>) \<longrightarrow>
        GenerateStream marshal uerr unmarshal
            (c\<lparr>httpClient := (\<lambda>h. Responded (r\<lparr>ContentType := ct\<rparr>))\<rparr>) env req
          = GenerateStream marshal uerr unmarshal
              (c\<lparr>httpClient := (\<lambda>h. Responded (r\<lparr>ContentType := ct'\<rparr>))\<rparr>) env req
        \<and> ChatStream marshal uerr decoder
            (c\<lparr>httpClient := (\<lambda>h. Responded (r\<lparr>ContentType := ct\<rparr>))\<rparr>) env creq
          = ChatStream marshal uerr decoder
              (c\<lparr>httpClient := (\<lambda>h. Responded (r\<lparr>ContentType := ct'\<rparr>))\<rparr>) env creq)"
proof (intro conjI impI)
  assume a: "GenerateRequest.Model req \<noteq> []
      \<and> marshal (GenerateBody (req\<lparr>GenerateRequest.Stream := True\<rparr>)) = Inr bytes
      \<and> httpClient c (generate_request c bytes) = Responded resp
      \<and> StatusCode resp = 200
      \<and> (Contains (ContentType resp) ''application/json''
          \<or> Contains (ContentType resp) ''application/x-ndjson'')
      \<and> Body resp = concat (map (\<lambda>l. l @ [CHR 0x0A]) ls)
      \<and> list_all (\<lambda>l. CHR 0x0A \<notin> set l \<and> length l < MaxScanTokenSize) ls
      \<and> map unmarshal (filter (\<lambda>l. l \<noteq> []) (map dropCR ls)) = map Inr evs
      \<and> quiet env (length ls)"
  then have acc: "accepted resp" by (simp add: accepted_def)
  from a have toks: "fst (scan_lines (Body resp)) = map dropCR ls"
    using scan_lines_lines[of ls] by simp
  from a have m: "marshal (GenerateBody (req\<lparr>GenerateRequest.Stream := True\<rparr>)) = Inr bytes"
    and h: "httpClient c (generate_request c bytes) = Responded resp"
    and n: "GenerateRequest.Model req \<noteq> []"
    by simp_all
  from a toks have u: "map unmarshal (filter (\<lambda>l. l \<noteq> []) (fst (scan_lines (Body resp)))) = map Inr evs"
    and q: "quiet env (length (fst (scan_lines (Body resp))))"
    by simp_all
  from GenerateStream_undisturbed[where marshal = marshal and uerr = uerr and unmarshal = unmarshal,
      OF n h acc u q m]
  show "events (GenerateStream marshal uerr unmarshal c env req)
          = upto_done GenerateResponse.Done evs"
    by simp
next
  assume a: "ChatRequest.Model creq \<noteq> []
      \<and> marshal (ChatBody (creq\<lparr>ChatRequest.Stream := True\<rparr>)) = Inr cbytes
      \<and> httpClient c (chat_request c cbytes) = Responded cresp
      \<and> StatusCode cresp = 200
      \<and> (Contains (ContentType cresp) ''application/json''
          \<or> Contains (ContentType cresp) ''application/x-ndjson'')
      \<and> decoder (Body cresp) (BodyErr cresp) = map Inr cevs
      \<and> receives env (length cevs)"
  then have acc: "accepted cresp" by (simp add: accepted_def)
  from a have m: "marshal (ChatBody (creq\<lparr>ChatRequest.Stream := True\<rparr>)) = Inr cbytes"
    and h: "httpClient c (chat_request c cbytes) = Responded cresp"
    and n: "ChatRequest.Model creq \<noteq> []"
    and d: "decoder (Body cresp) (BodyErr cresp) = map Inr cevs"
    and q: "receives env (length cevs)"
    by simp_all
  from ChatStream_undisturbed[where marshal = marshal and uerr = uerr and decoder = decoder,
      OF n h acc d q m]
  show "events (ChatStream marshal uerr decoder c env creq) = upto_done ChatResponse.Done cevs"
    by simp
next
  assume "accepted (r\<lparr>ContentType := ct\<rparr>) \<and> accepted (r\<lparr>ContentType := ct'\<rparr>)"
  then show "GenerateStream marshal uerr unmarshal
            (c\<lparr>httpClient := (\<lambda>h. Responded (r\<lparr>ContentType := ct\<rparr>))\<rparr>) env req
          = GenerateStream marshal uerr unmarshal
              (c\<lparr>httpClient := (\<lambda>h. Responded (r\<lparr>ContentType := ct'\<rparr>))\<rparr>) env req"
    by (intro GenerateStream_content_type) simp_all
next
  assume "accepted (r\<lparr>ContentType := ct\<rparr>) \<and> accepted (r\<lparr>ContentType := ct'\<rparr>)"
  then show "ChatStream marshal uerr decoder
            (c\<lparr>httpClient := (\<lambda>h. Responded (r\<lparr>ContentType := ct\<rparr>))\<rparr>) env creq
          = ChatStream marshal uerr decoder
              (c\<lparr>httpClient := (\<lambda>h. Responded (r\<lparr>ContentType := ct'\<rparr>))\<rparr>) env creq"
    by (intro ChatStream_content_type) simp_all
qed

theorem framing_is_fixed_per_operation_witness:
  \<open>events (GenerateStream example_marshal example_unmarshalErr example_unmarshal
        (answering (responding 200 ''application/json'' three_lines)) receiving
        (example_request False))
      = [fragment ''Hel'' False, fragment ''lo'' False, fragment [] True]
   \<and> events (ChatStream example_marshal example_unmarshalErr example_decoder
        (answering (responding 200 ''application/x-ndjson'' three_values)) receiving
        (example_chat_request False))
      = [chat_fragment False, chat_fragment False, chat_fragment True]
   \<and> GenerateStream example_marshal example_unmarshalErr example_unmarshal
      (answering (responding 200 ''application/json'' three_lines)) receiving (example_request False)
    = GenerateStream example_marshal example_unmarshalErr example_unmarshal
        (answering (responding 200 ''application/x-ndjson'' three_lines)) receiving
        (example_request False)
   \<and> ChatStream example_marshal example_unmarshalErr example_decoder
        (answering (responding 200 ''application/x-ndjson'' three_values)) receiving
        (example_chat_request False)
    = ChatStream example_marshal example_unmarshalErr example_decoder
        (answering (responding 200 ''application/json'' three_values)) receiving
        (example_chat_request False)\<close>
proof (intro conjI)
  have acc: "accepted ((responding 200 [] b)\<lparr>ContentType := ''application/json''\<rparr>)
      \<and> accepted ((responding 200 [] b)\<lparr>ContentType := ''application/x-ndjson''\<rparr>)" for b
    by (simp add: accepted_def responding_def HasPrefix_def)
  have acc': "accepted ((responding 200 [] b)\<lparr>ContentType := ''application/x-ndjson''\<rparr>)
      \<and> accepted ((responding 200 [] b)\<lparr>ContentType := ''application/json''\<rparr>)" for b
    using acc by simp
  have s: "StatusCode (responding k ct b) = k" "ContentType (responding k ct b) = ct" for k ct b
    by (simp_all add: responding_def)
  have ct: \<open>Contains ''application/json'' ''application/json''\<close>
    \<open>Contains ''application/x-ndjson'' ''application/x-ndjson''\<close>
    by (simp_all add: HasPrefix_def)
  have ls: \<open>three_lines
      = concat (map (\<lambda>l. l @ [CHR 0x0A])
          [''{"response":"Hel"}'', ''{"response":"lo"}'', [], ''{"done":true}''])\<close>
    by (simp add: three_lines_def)
  have short: \<open>list_all (\<lambda>l. CHR 0x0A \<notin> set l \<and> length l < MaxScanTokenSize)
      [''{"response":"Hel"}'', ''{"response":"lo"}'', [], ''{"done":true}'']\<close>
    by (simp add: MaxScanTokenSize_def)
  have u: \<open>map example_unmarshal (filter (\<lambda>l. l \<noteq> [])
        (map dropCR [''{"response":"Hel"}'', ''{"response":"lo"}'', [], ''{"done":true}'']))
      = map Inr [fragment ''Hel'' False, fragment ''lo'' False, fragment [] True]\<close>
    by (simp add: dropCR_def example_unmarshal_def)
  have q: "quiet receiving n" "receives receiving n" for n
    by (simp_all add: quiet_def receives_def receiving_def)
  show \<open>events (GenerateStream example_marshal example_unmarshalErr example_unmarshal
        (answering (responding 200 ''application/json'' three_lines)) receiving
        (example_request False))
      = [fragment ''Hel'' False, fragment ''lo'' False, fragment [] True]\<close>
    using framing_is_fixed_per_operation[THEN conjunct1, rule_format,
        where c = "answering (responding 200 ''application/json'' three_lines)"
          and resp = "responding 200 ''application/json'' three_lines"
          and req = "example_request False" and marshal = example_marshal
          and bytes = "example_request_json True" and env = receiving
          and unmarshal = example_unmarshal and uerr = example_unmarshalErr
          and ls = \<open>[''{"response":"Hel"}'', ''{"response":"lo"}'', [], ''{"done":true}'']\<close>
          and evs = "[fragment ''Hel'' False, fragment ''lo'' False, fragment [] True]"]
      example_request_Model example_marshal_generate answering_responds ls short u q ct
    by (simp add: s Body_responding HasPrefix_def)
  show \<open>events (ChatStream example_marshal example_unmarshalErr example_decoder
        (answering (responding 200 ''application/x-ndjson'' three_values)) receiving
        (example_chat_request False))
      = [chat_fragment False, chat_fragment False, chat_fragment True]\<close>
    using framing_is_fixed_per_operation[THEN conjunct2, THEN conjunct1, rule_format,
        where c = "answering (responding 200 ''application/x-ndjson'' three_values)"
          and cresp = "responding 200 ''application/x-ndjson'' three_values"
          and creq = "example_chat_request False" and marshal = example_marshal
          and cbytes = "example_chat_request_json True" and env = receiving
          and decoder = example_decoder and uerr = example_unmarshalErr
          and cevs = "[chat_fragment False, chat_fragment False, chat_fragment True]"]
      example_chat_request_Model example_marshal_chat answering_responds three_values_decoded q ct
    by (simp add: s Body_responding BodyErr_responding HasPrefix_def)
  show \<open>GenerateStream example_marshal example_unmarshalErr example_unmarshal
      (answering (responding 200 ''application/json'' three_lines)) receiving (example_request False)
    = GenerateStream example_marshal example_unmarshalErr example_unmarshal
        (answering (responding 200 ''application/x-ndjson'' three_lines)) receiving
        (example_request False)\<close>
    using framing_is_fixed_per_operation[THEN conjunct2, THEN conjunct2, rule_format,
        where r = "responding 200 [] three_lines"
        and ct = "''application/json''" and ct' = "''application/x-ndjson''"
        and uerr = example_unmarshalErr and unmarshal = example_unmarshal
        and marshal = example_marshal
        and c = "answering (responding 200 [] [])" and env = receiving
        and req = "example_request False"] acc
    by (simp add: answering_def responding_def)
  show \<open>ChatStream example_marshal example_unmarshalErr example_decoder
        (answering (responding 200 ''application/x-ndjson'' three_values)) receiving
        (example_chat_request False)
    = ChatStream example_marshal example_unmarshalErr example_decoder
        (answering (responding 200 ''application/json'' three_values)) receiving
        (example_chat_request False)\<close>
    using framing_is_fixed_per_operation[THEN conjunct2, THEN conjunct2, rule_format,
        where r = "responding 200 [] three_values"
        and ct = "''application/x-ndjson''" and ct' = "''application/json''"
        and uerr = example_unmarshalErr and decoder = example_decoder
        and marshal = example_marshal
        and c = "answering (responding 200 [] [])" and env = receiving
        and creq = "example_chat_request False"] acc'
    by (simp add: answering_def responding_def)
qed

subsection \<open>Closing the body\<close>

text \<open>
  C9. The body of the response is to be closed exactly once on every exit path
  of a streaming session. On the path of the unexpected content type it is never
  closed: \<open>requestStream\<close> returns \<open>nil\<close> and the error without a call of
  \<open>resp.Body.Close()\<close>, and the caller, which got no response, cannot close it
  either. (The path of a status other than 200, just above it in \<open>requestStream\<close>,
  does close the body.)
\<close>

theorem unexpected_content_type_leaves_the_body_open:
  \<open>GenerateStream example_marshal example_unmarshalErr unmarshal
      (answering (responding 200 ''text/plain'' ''hello'')) env (example_request False) =
    \<lparr>sent = [generate_request (answering (responding 200 ''text/plain'' ''hello''))
               (example_request_json True)],
     closes = 0, events = [],
     err = Some (Errorf ''unexpected content type: text/plain''), returned = True\<rparr>
   \<and> ChatStream example_marshal example_unmarshalErr decoder
      (answering (responding 200 ''text/plain'' ''hello'')) env (example_chat_request False) =
    \<lparr>sent = [chat_request (answering (responding 200 ''text/plain'' ''hello''))
               (example_chat_request_json True)],
     closes = 0, events = [],
     err = Some (Errorf ''unexpected content type: text/plain''), returned = True\<rparr>\<close>
  by (simp add: GenerateStream_unfold ChatStream_unfold requestStream_def
        bodyReader_Some[where marshal = example_marshal, OF example_marshal_generate]
        bodyReader_Some[where marshal = example_marshal, OF example_marshal_chat]
        example_request_Model example_chat_request_Model answering_def responding_def
        generate_request_def chat_request_def Let_def HasPrefix_def)

text \<open>
  On the other paths on which the goroutine returns after a response arrived, the
  body is closed once. (A goroutine that stays blocked in a send, because the
  caller stopped receiving and the context is never done, has not returned and has
  not closed the body.)
\<close>

lemma requestStream_failed_closes:
  "bodyReader marshal b = Inr bytes \<Longrightarrow> httpClient c (newRequest c m p bytes) = Responded resp \<Longrightarrow>
   StatusCode resp \<noteq> 200 \<Longrightarrow>
   closes (requestStream marshal uerr c m p b) = 1
   \<and> (\<exists>e. result (requestStream marshal uerr c m p b) = Inl e)"
  by (simp add: requestStream_def Let_def)

lemma GenerateStream_closes_once:
  assumes "GenerateRequest.Model req \<noteq> []"
    and "httpClient c (generate_request c bytes) = Responded resp"
    and "StatusCode resp \<noteq> 200 \<or> accepted resp"
    and "returned (GenerateStream marshal uerr unmarshal c env req)"
    and m: "marshal (GenerateBody (req\<lparr>GenerateRequest.Stream := True\<rparr>)) = Inr bytes"
  shows "closes (GenerateStream marshal uerr unmarshal c env req) = 1"
proof (cases "StatusCode resp = 200")
  case True
  with assms(3) have "accepted resp" by simp
  from GenerateStream_accepted[where marshal = marshal, OF assms(1,2) this m, of uerr unmarshal env]
    assms(4)
  show ?thesis by (auto simp: finish_eq split: ending.splits)
next
  case False
  from requestStream_failed_closes[OF bodyReader_Some[where marshal = marshal, OF m]
      assms(2)[unfolded generate_request_def] False, of uerr]
    assms(1)
  show ?thesis by (auto simp: GenerateStream_unfold)
qed

lemma ChatStream_closes_once:
  assumes "ChatRequest.Model req \<noteq> []"
    and "httpClient c (chat_request c bytes) = Responded resp"
    and "StatusCode resp \<noteq> 200 \<or> accepted resp"
    and "returned (ChatStream marshal uerr decoder c env req)"
    and m: "marshal (ChatBody (req\<lparr>ChatRequest.Stream := True\<rparr>)) = Inr bytes"
  shows "closes (ChatStream marshal uerr decoder c env req) = 1"
proof (cases "StatusCode resp = 200")
  case True
  with assms(3) have "accepted resp" by simp
  from ChatStream_accepted[where marshal = marshal, OF assms(1,2) this m, of uerr decoder env]
    assms(4)
  show ?thesis by (auto simp: finish_eq split: ending.splits)
next
  case False
  from requestStream_failed_closes[OF bodyReader_Some[where marshal = marshal, OF m]
      assms(2)[unfolded chat_request_def] False, of uerr]
    assms(1)
  show ?thesis by (auto simp: ChatStream_unfold)
qed

text \<open>
  When \<open>json.Marshal\<close> fails, nothing is sent and there is no body to close: the
  operation ends with the error "marshaling request body: ...".
\<close>

lemma marshal_error_sends_nothing:
  assumes "bodyReader marshal body = Inl e"
  shows "request marshal uerr c verb path body response stream =
           \<lparr>sent = [], closes = 0, result = Inl (Errorf (''marshaling request body: '' @ e))\<rparr>"
    and "requestStream marshal uerr c verb path body =
           \<lparr>sent = [], closes = 0, result = Inl (Errorf (''marshaling request body: '' @ e))\<rparr>"
  using assms by (simp_all add: request_def requestStream_def)

subsection \<open>The Stream field\<close>

lemma call_by_value_eq:
  "call_by_value body vars arg = (vars @ [fst (body arg)], snd (body arg))"
  by (simp add: call_by_value_def Let_def)

lemma request_sends:
  "bodyReader marshal b = Inr bytes \<Longrightarrow>
   \<forall>e. httpClient c (newRequest c m p bytes) \<noteq> NewRequestFailed e \<Longrightarrow>
   sent (request marshal uerr c m p b response stream) = [newRequest c m p bytes]"
  by (auto simp: request_def Let_def split: transport_result.splits)

lemma requestStream_sends:
  "bodyReader marshal b = Inr bytes \<Longrightarrow>
   \<forall>e. httpClient c (newRequest c m p bytes) \<noteq> NewRequestFailed e \<Longrightarrow>
   sent (requestStream marshal uerr c m p b) = [newRequest c m p bytes]"
  by (auto simp: requestStream_def Let_def split: transport_result.splits)

lemma sent_request:
  "h \<in> set (sent (request marshal uerr c m p b response stream)) \<Longrightarrow>
   bodyReader marshal b = Inr (Payload h)"
  by (auto simp: request_def Let_def newRequest_def split: sum.splits transport_result.splits)

lemma sent_requestStream:
  "h \<in> set (sent (requestStream marshal uerr c m p b)) \<Longrightarrow>
   bodyReader marshal b = Inr (Payload h)"
  by (auto simp: requestStream_def Let_def newRequest_def
           split: sum.splits transport_result.splits if_splits)

lemma sent_GenerateStream:
  "GenerateRequest.Model req \<noteq> [] \<Longrightarrow>
   sent (GenerateStream marshal uerr unmarshal c env req)
     = sent (requestStream marshal uerr c ''POST'' ''/api/generate''
               (Some (GenerateBody (req\<lparr>GenerateRequest.Stream := True\<rparr>))))"
  by (simp add: GenerateStream_unfold finish_eq split: sum.splits)

lemma sent_ChatStream:
  "ChatRequest.Model req \<noteq> [] \<Longrightarrow>
   sent (ChatStream marshal uerr decoder c env req)
     = sent (requestStream marshal uerr c ''POST'' ''/api/chat''
               (Some (ChatBody (req\<lparr>ChatRequest.Stream := True\<rparr>))))"
  by (simp add: ChatStream_unfold finish_eq split: sum.splits)

lemma call_Generate:
  assumes "GenerateRequest.Model req \<noteq> []"
    and "marshal (GenerateBody (req\<lparr>GenerateRequest.Stream := False\<rparr>)) = Inr bytes"
    and "\<forall>e. httpClient c (newRequest c ''POST'' ''/api/generate'' (Some bytes)) \<noteq> NewRequestFailed e"
  shows "sent (snd (call_by_value (Generate_body marshal uerr decode c) vars req))
           = [newRequest c ''POST'' ''/api/generate'' (Some bytes)]
         \<and> fst (call_by_value (Generate_body marshal uerr decode c) vars req)
           = vars @ [req\<lparr>GenerateRequest.Stream := False\<rparr>]"
  using assms(1) request_sends[OF bodyReader_Some[where marshal = marshal, OF assms(2)] assms(3)]
  by (simp add: call_by_value_eq Generate_body_def Let_def)

lemma call_GenerateStream:
  assumes "GenerateRequest.Model req \<noteq> []"
    and "marshal (GenerateBody (req\<lparr>GenerateRequest.Stream := True\<rparr>)) = Inr bytes"
    and "\<forall>e. httpClient c (newRequest c ''POST'' ''/api/generate'' (Some bytes)) \<noteq> NewRequestFailed e"
  shows "sent (snd (call_by_value (GenerateStream_body marshal uerr unmarshal c env) vars req))
           = [newRequest c ''POST'' ''/api/generate'' (Some bytes)]
         \<and> fst (call_by_value (GenerateStream_body marshal uerr unmarshal c env) vars req)
           = vars @ [req\<lparr>GenerateRequest.Stream := True\<rparr>]"
  using assms(1) requestStream_sends[OF bodyReader_Some[where marshal = marshal, OF assms(2)] assms(3), of uerr]
    sent_GenerateStream[OF assms(1), of marshal uerr unmarshal c env]
  by (simp add: call_by_value_eq GenerateStream_def[symmetric])
     (simp add: GenerateStream_body_def Let_def)

lemma call_Chat:
  assumes "ChatRequest.Model req \<noteq> []"
    and "marshal (ChatBody (req\<lparr>ChatRequest.Stream := False\<rparr>)) = Inr bytes"
    and "\<forall>e. httpClient c (newRequest c ''POST'' ''/api/chat'' (Some bytes)) \<noteq> NewRequestFailed e"
  shows "sent (snd (call_by_value (Chat_body marshal uerr decode c) vars req))
           = [newRequest c ''POST'' ''/api/chat'' (Some bytes)]
         \<and> fst (call_by_value (Chat_body marshal uerr decode c) vars req)
           = vars @ [req\<lparr>ChatRequest.Stream := False\<rparr>]"
  using assms(1) request_sends[OF bodyReader_Some[where marshal = marshal, OF assms(2)] assms(3)]
  by (simp add: call_by_value_eq Chat_body_def Let_def)

lemma call_ChatStream:
  assumes "ChatRequest.Model req \<noteq> []"
    and "marshal (ChatBody (req\<lparr>ChatRequest.Stream := True\<rparr>)) = Inr bytes"
    and "\<forall>e. httpClient c (newRequest c ''POST'' ''/api/chat'' (Some bytes)) \<noteq> NewRequestFailed e"
  shows "sent (snd (call_by_value (ChatStream_body marshal uerr decoder c env) vars req))
           = [newRequest c ''POST'' ''/api/chat'' (Some bytes)]
         \<and> fst (call_by_value (ChatStream_body marshal uerr decoder c env) vars req)
           = vars @ [req\<lparr>ChatRequest.Stream := True\<rparr>]"
  using assms(1) requestStream_sends[OF bodyReader_Some[where marshal = marshal, OF assms(2)] assms(3), of uerr]
    sent_ChatStream[OF assms(1), of marshal uerr decoder c env]
  by (simp add: call_by_value_eq ChatStream_def[symmetric])
     (simp add: ChatStream_body_def Let_def)

text \<open>
  C10. A call of \<open>Generate\<close> or \<open>Chat\<close> with a request that names a model and that
  \<open>json.Marshal\<close> encodes sends, unless \<open>http.NewRequestWithContext\<close> fails, exactly
  one request, whose body is the encoding of the caller's request with \<open>Stream\<close> set
  to false; a call of \<open>GenerateStream\<close> or \<open>ChatStream\<close> sends the encoding of the
  request with \<open>Stream\<close> set to true. The assignment is made on the parameter, which
  after the call holds the request with the new \<open>Stream\<close> value; the variables of the
  caller, the one it passed among them, hold what they held before the call, in
  every case. No request of another content is sent in any case (the body of each
  request sent is the encoding of the request with the \<open>Stream\<close> value of the
  operation), and what the operation does is the same for every \<open>Stream\<close> value
  supplied.
\<close>

theorem stream_flag_is_overridden:
  "(GenerateRequest.Model req \<noteq> []
      \<and> marshal (GenerateBody (req\<lparr>GenerateRequest.Stream := False\<rparr>)) = Inr bytes
      \<and> (\<forall>e. httpClient c (newRequest c ''POST'' ''/api/generate'' (Some bytes))
                \<noteq> NewRequestFailed e)
    \<longrightarrow> sent (snd (call_by_value (Generate_body marshal uerr decode c) vars req))
           = [newRequest c ''POST'' ''/api/generate'' (Some bytes)]
        \<and> fst (call_by_value (Generate_body marshal uerr decode c) vars req)
           = vars @ [req\<lparr>GenerateRequest.Stream := False\<rparr>])
   \<and> (GenerateRequest.Model req \<noteq> []
      \<and> marshal (GenerateBody (req\<lparr>GenerateRequest.Stream := True\<rparr>)) = Inr sbytes
      \<and> (\<forall>e. httpClient c (newRequest c ''POST'' ''/api/generate'' (Some sbytes))
                \<noteq> NewRequestFailed e)
    \<longrightarrow> sent (snd (call_by_value (GenerateStream_body marshal uerr unmarshal c env) vars req))
           = [newRequest c ''POST'' ''/api/generate'' (Some sbytes)]
        \<and> fst (call_by_value (GenerateStream_body marshal uerr unmarshal c env) vars req)
           = vars @ [req\<lparr>GenerateRequest.Stream := True\<rparr>])
   \<and> (ChatRequest.Model creq \<noteq> []
      \<and> marshal (ChatBody (creq\<lparr>ChatRequest.Stream := False\<rparr>)) = Inr cbytes
      \<and> (\<forall>e. httpClient c (newRequest c ''POST'' ''/api/chat'' (Some cbytes))
                \<noteq> NewRequestFailed e)
    \<longrightarrow> sent (snd (call_by_value (Chat_body marshal uerr cdecode c) cvars creq))
           = [newRequest c ''POST'' ''/api/chat'' (Some cbytes)]
        \<and> fst (call_by_value (Chat_body marshal uerr cdecode c) cvars creq)
           = cvars @ [creq\<lparr>ChatRequest.Stream := False\<rparr>])
   \<and> (ChatRequest.Model creq \<noteq> []
      \<and> marshal (ChatBody (creq\<lparr>ChatRequest.Stream := True\<rparr>)) = Inr csbytes
      \<and> (\<forall>e. httpClient c (newRequest c ''POST'' ''/api/chat'' (Some csbytes))
                \<noteq> NewRequestFailed e)
    \<longrightarrow> sent (snd (call_by_value (ChatStream_body marshal uerr decoder c env) cvars creq))
           = [newRequest c ''POST'' ''/api/chat'' (Some csbytes)]
        \<and> fst (call_by_value (ChatStream_body marshal uerr decoder c env) cvars creq)
           = cvars @ [creq\<lparr>ChatRequest.Stream := True\<rparr>])
   \<and> take (length vars) (fst (call_by_value (Generate_body marshal uerr decode c) vars req)) = vars
   \<and> take (length vars)
        (fst (call_by_value (GenerateStream_body marshal uerr unmarshal c env) vars req)) = vars
   \<and> take (length cvars) (fst (call_by_value (Chat_body marshal uerr cdecode c) cvars creq)) = cvars
   \<and> take (length cvars)
        (fst (call_by_value (ChatStream_body marshal uerr decoder c env) cvars creq)) = cvars
   \<and> (\<forall>h \<in> set (sent (Generate marshal uerr decode c req)).
        bodyReader marshal (Some (GenerateBody (req\<lparr>GenerateRequest.Stream := False\<rparr>)))
          = Inr (Payload h))
   \<and> (\<forall>h \<in> set (sent (GenerateStream marshal uerr unmarshal c env req)).
        bodyReader marshal (Some (GenerateBody (req\<lparr>GenerateRequest.Stream := True\<rparr>)))
          = Inr (Payload h))
   \<and> (\<forall>h \<in> set (sent (Chat marshal uerr cdecode c creq)).
        bodyReader marshal (Some (ChatBody (creq\<lparr>ChatRequest.Stream := False\<rparr>)))
          = Inr (Payload h))
   \<and> (\<forall>h \<in> set (sent (ChatStream marshal uerr decoder c env creq)).
        bodyReader marshal (Some (ChatBody (creq\<lparr>ChatRequest.Stream := True\<rparr>)))
          = Inr (Payload h))
   \<and> Generate marshal uerr decode c (req\<lparr>GenerateRequest.Stream := b\<rparr>)
       = Generate marshal uerr decode c req
   \<and> GenerateStream marshal uerr unmarshal c env (req\<lparr>GenerateRequest.Stream := b\<rparr>)
       = GenerateStream marshal uerr unmarshal c env req
   \<and> Chat marshal uerr cdecode c (creq\<lparr>ChatRequest.Stream := b\<rparr>) = Chat marshal uerr cdecode c creq
   \<and> ChatStream marshal uerr decoder c env (creq\<lparr>ChatRequest.Stream := b\<rparr>)
       = ChatStream marshal uerr decoder c env creq"
proof (intro conjI ballI)
  fix h assume "h \<in> set (sent (Generate marshal uerr decode c req))"
  then show "bodyReader marshal (Some (GenerateBody (req\<lparr>GenerateRequest.Stream := False\<rparr>)))
          = Inr (Payload h)"
    using sent_request[of h marshal uerr c "''POST''" "''/api/generate''"
        "Some (GenerateBody (req\<lparr>GenerateRequest.Stream := False\<rparr>))" "Some decode" False]
    by (auto simp: Generate_unfold split: if_splits)
next
  fix h assume "h \<in> set (sent (GenerateStream marshal uerr unmarshal c env req))"
  then show "bodyReader marshal (Some (GenerateBody (req\<lparr>GenerateRequest.Stream := True\<rparr>)))
          = Inr (Payload h)"
    using sent_requestStream[of h marshal uerr c "''POST''" "''/api/generate''"
        "Some (GenerateBody (req\<lparr>GenerateRequest.Stream := True\<rparr>))"]
    by (cases "GenerateRequest.Model req = []")
       (simp_all add: sent_GenerateStream, simp add: GenerateStream_unfold)
next
  fix h assume "h \<in> set (sent (Chat marshal uerr cdecode c creq))"
  then show "bodyReader marshal (Some (ChatBody (creq\<lparr>ChatRequest.Stream := False\<rparr>)))
          = Inr (Payload h)"
    using sent_request[of h marshal uerr c "''POST''" "''/api/chat''"
        "Some (ChatBody (creq\<lparr>ChatRequest.Stream := False\<rparr>))" "Some cdecode" False]
    by (auto simp: Chat_unfold split: if_splits)
next
  fix h assume "h \<in> set (sent (ChatStream marshal uerr decoder c env creq))"
  then show "bodyReader marshal (Some (ChatBody (creq\<lparr>ChatRequest.Stream := True\<rparr>)))
          = Inr (Payload h)"
    using sent_requestStream[of h marshal uerr c "''POST''" "''/api/chat''"
        "Some (ChatBody (creq\<lparr>ChatRequest.Stream := True\<rparr>))"]
    by (cases "ChatRequest.Model creq = []")
       (simp_all add: sent_ChatStream, simp add: ChatStream_unfold)
next
  show "GenerateRequest.Model req \<noteq> []
      \<and> marshal (GenerateBody (req\<lparr>GenerateRequest.Stream := False\<rparr>)) = Inr bytes
      \<and> (\<forall>e. httpClient c (newRequest c ''POST'' ''/api/generate'' (Some bytes))
                \<noteq> NewRequestFailed e)
    \<longrightarrow> sent (snd (call_by_value (Generate_body marshal uerr decode c) vars req))
           = [newRequest c ''POST'' ''/api/generate'' (Some bytes)]
        \<and> fst (call_by_value (Generate_body marshal uerr decode c) vars req)
           = vars @ [req\<lparr>GenerateRequest.Stream := False\<rparr>]"
    by (intro impI, elim conjE, rule call_Generate; assumption)
next
  show "GenerateRequest.Model req \<noteq> []
      \<and> marshal (GenerateBody (req\<lparr>GenerateRequest.Stream := True\<rparr>)) = Inr sbytes
      \<and> (\<forall>e. httpClient c (newRequest c ''POST'' ''/api/generate'' (Some sbytes))
                \<noteq> NewRequestFailed e)
    \<longrightarrow> sent (snd (call_by_value (GenerateStream_body marshal uerr unmarshal c env) vars req))
           = [newRequest c ''POST'' ''/api/generate'' (Some sbytes)]
        \<and> fst (call_by_value (GenerateStream_body marshal uerr unmarshal c env) vars req)
           = vars @ [req\<lparr>GenerateRequest.Stream := True\<rparr>]"
    by (intro impI, elim conjE, rule call_GenerateStream; assumption)
next
  show "ChatRequest.Model creq \<noteq> []
      \<and> marshal (ChatBody (creq\<lparr>ChatRequest.Stream := False\<rparr>)) = Inr cbytes
      \<and> (\<forall>e. httpClient c (newRequest c ''POST'' ''/api/chat'' (Some cbytes))
                \<noteq> NewRequestFailed e)
    \<longrightarrow> sent (snd (call_by_value (Chat_body marshal uerr cdecode c) cvars creq))
           = [newRequest c ''POST'' ''/api/chat'' (Some cbytes)]
        \<and> fst (call_by_value (Chat_body marshal uerr cdecode c) cvars creq)
           = cvars @ [creq\<lparr>ChatRequest.Stream := False\<rparr>]"
    by (intro impI, elim conjE, rule call_Chat; assumption)
next
  show "ChatRequest.Model creq \<noteq> []
      \<and> marshal (ChatBody (creq\<lparr>ChatRequest.Stream := True\<rparr>)) = Inr csbytes
      \<and> (\<forall>e. httpClient c (newRequest c ''POST'' ''/api/chat'' (Some csbytes))
                \<noteq> NewRequestFailed e)
    \<longrightarrow> sent (snd (call_by_value (ChatStream_body marshal uerr decoder c env) cvars creq))
           = [newRequest c ''POST'' ''/api/chat'' (Some csbytes)]
        \<and> fst (call_by_value (ChatStream_body marshal uerr decoder c env) cvars creq)
           = cvars @ [creq\<lparr>ChatRequest.Stream := True\<rparr>]"
    by (intro impI, elim conjE, rule call_ChatStream; assumption)
next
  show "GenerateStream marshal uerr unmarshal c env (req\<lparr>GenerateRequest.Stream := b\<rparr>)
       = GenerateStream marshal uerr unmarshal c env req"
    by (simp add: GenerateStream_def GenerateStream_body_def)
next
  show "ChatStream marshal uerr decoder c env (creq\<lparr>ChatRequest.Stream := b\<rparr>)
       = ChatStream marshal uerr decoder c env creq"
    by (simp add: ChatStream_def ChatStream_body_def)
qed (simp_all add: call_by_value_eq Generate_unfold Chat_unfold)

theorem stream_flag_is_overridden_witness:
  \<open>sent (snd (call_by_value
       (Generate_body example_marshal example_unmarshalErr example_decode
          (answering (responding 200 ''application/json'' ''{"response":"Hello","done":true}'')))
       [example_request True] (example_request True)))
     = [newRequest
          (answering (responding 200 ''application/json'' ''{"response":"Hello","done":true}''))
          ''POST'' ''/api/generate''
          (Some ''{"model":"llama3.2:latest","prompt":"Why is the sky blue?","stream":false}'')]
   \<and> fst (call_by_value
       (Generate_body example_marshal example_unmarshalErr example_decode
          (answering (responding 200 ''application/json'' ''{"response":"Hello","done":true}'')))
       [example_request True] (example_request True))
     = [example_request True, example_request False]
   \<and> sent (snd (call_by_value
       (GenerateStream_body example_marshal example_unmarshalErr example_unmarshal
          (answering (responding 200 ''application/x-ndjson'' three_lines)) receiving)
       [example_request False] (example_request False)))
     = [newRequest (answering (responding 200 ''application/x-ndjson'' three_lines))
          ''POST'' ''/api/generate''
          (Some ''{"model":"llama3.2:latest","prompt":"Why is the sky blue?","stream":true}'')]
   \<and> fst (call_by_value
       (GenerateStream_body example_marshal example_unmarshalErr example_unmarshal
          (answering (responding 200 ''application/x-ndjson'' three_lines)) receiving)
       [example_request False] (example_request False))
     = [example_request False, example_request True]
   \<and> sent (snd (call_by_value
       (Chat_body example_marshal example_unmarshalErr example_chat_decode
          (answering (responding 200 ''application/json'' ''{"done":true}'')))
       [example_chat_request True] (example_chat_request True)))
     = [newRequest (answering (responding 200 ''application/json'' ''{"done":true}''))
          ''POST'' ''/api/chat''
          (Some ''{"model":"llama3.2:latest","messages":[{"role":"user","content":"Hello"}],"stream":false}'')]
   \<and> fst (call_by_value
       (Chat_body example_marshal example_unmarshalErr example_chat_decode
          (answering (responding 200 ''application/json'' ''{"done":true}'')))
       [example_chat_request True] (example_chat_request True))
     = [example_chat_request True, example_chat_request False]
   \<and> sent (snd (call_by_value
       (ChatStream_body example_marshal example_unmarshalErr example_decoder
          (answering (responding 200 ''application/json'' three_values)) receiving)
       [example_chat_request False] (example_chat_request False)))
     = [newRequest (answering (responding 200 ''application/json'' three_values))
          ''POST'' ''/api/chat''
          (Some ''{"model":"llama3.2:latest","messages":[{"role":"user","content":"Hello"}],"stream":true}'')]
   \<and> fst (call_by_value
       (ChatStream_body example_marshal example_unmarshalErr example_decoder
          (answering (responding 200 ''application/json'' three_values)) receiving)
       [example_chat_request False] (example_chat_request False))
     = [example_chat_request False, example_chat_request True]\<close>
proof -
  note flag = stream_flag_is_overridden[where marshal = example_marshal
      and uerr = example_unmarshalErr and env = receiving]
  have n: "\<forall>e. httpClient (answering resp) h \<noteq> NewRequestFailed e" for resp h
    by (simp add: answering_def)
  have 1: \<open>sent (snd (call_by_value
       (Generate_body example_marshal example_unmarshalErr example_decode
          (answering (responding 200 ''application/json'' ''{"response":"Hello","done":true}'')))
       [example_request True] (example_request True)))
     = [newRequest
          (answering (responding 200 ''application/json'' ''{"response":"Hello","done":true}''))
          ''POST'' ''/api/generate'' (Some (example_request_json False))]
   \<and> fst (call_by_value
       (Generate_body example_marshal example_unmarshalErr example_decode
          (answering (responding 200 ''application/json'' ''{"response":"Hello","done":true}'')))
       [example_request True] (example_request True))
     = [example_request True] @ [(example_request True)\<lparr>GenerateRequest.Stream := False\<rparr>]\<close>
    using flag[THEN conjunct1, rule_format, where req = "example_request True"
        and bytes = "example_request_json False"]
      example_request_Model example_marshal_generate n
    by simp
  have 2: \<open>sent (snd (call_by_value
       (GenerateStream_body example_marshal example_unmarshalErr example_unmarshal
          (answering (responding 200 ''application/x-ndjson'' three_lines)) receiving)
       [example_request False] (example_request False)))
     = [newRequest (answering (responding 200 ''application/x-ndjson'' three_lines))
          ''POST'' ''/api/generate'' (Some (example_request_json True))]
   \<and> fst (call_by_value
       (GenerateStream_body example_marshal example_unmarshalErr example_unmarshal
          (answering (responding 200 ''application/x-ndjson'' three_lines)) receiving)
       [example_request False] (example_request False))
     = [example_request False] @ [(example_request False)\<lparr>GenerateRequest.Stream := True\<rparr>]\<close>
    using flag[THEN conjunct2, THEN conjunct1, rule_format, where req = "example_request False"
        and sbytes = "example_request_json True"]
      example_request_Model example_marshal_generate n
    by simp
  have 3: \<open>sent (snd (call_by_value
       (Chat_body example_marshal example_unmarshalErr example_chat_decode
          (answering (responding 200 ''application/json'' ''{"done":true}'')))
       [example_chat_request True] (example_chat_request True)))
     = [newRequest (answering (responding 200 ''application/json'' ''{"done":true}''))
          ''POST'' ''/api/chat'' (Some (example_chat_request_json False))]
   \<and> fst (call_by_value
       (Chat_body example_marshal example_unmarshalErr example_chat_decode
          (answering (responding 200 ''application/json'' ''{"done":true}'')))
       [example_chat_request True] (example_chat_request True))
     = [example_chat_request True] @ [(example_chat_request True)\<lparr>ChatRequest.Stream := False\<rparr>]\<close>
    using flag[THEN conjunct2, THEN conjunct2, THEN conjunct1, rule_format,
        where creq = "example_chat_request True" and cbytes = "example_chat_request_json False"]
      example_chat_request_Model example_marshal_chat n
    by simp
  have 4: \<open>sent (snd (call_by_value
       (ChatStream_body example_marshal example_unmarshalErr example_decoder
          (answering (responding 200 ''application/json'' three_values)) receiving)
       [example_chat_request False] (example_chat_request False)))
     = [newRequest (answering (responding 200 ''application/json'' three_values))
          ''POST'' ''/api/chat'' (Some (example_chat_request_json True))]
   \<and> fst (call_by_value
       (ChatStream_body example_marshal example_unmarshalErr example_decoder
          (answering (responding 200 ''application/json'' three_values)) receiving)
       [example_chat_request False] (example_chat_request False))
     = [example_chat_request False] @ [(example_chat_request False)\<lparr>ChatRequest.Stream := True\<rparr>]\<close>
    using flag[THEN conjunct2, THEN conjunct2, THEN conjunct2, THEN conjunct1, rule_format,
        where creq = "example_chat_request False" and csbytes = "example_chat_request_json True"]
      example_chat_request_Model example_marshal_chat n
    by simp
  from 1 2 3 4 show ?thesis
    by (simp only: example_request_Stream example_chat_request_Stream append.simps
          example_request_json_def example_chat_request_json_def if_True if_False simp_thms)
qed

subsection \<open>parseHost\<close>

text \<open>
  C8. \<open>parseHost\<close> maps the empty host to \<open>http://127.0.0.1:11434\<close>, the bare host
  \<open>example.com\<close> to \<open>http://example.com:11434\<close> and \<open>https://example.com\<close> to
  \<open>https://example.com:443\<close>, as the claim says. The last part of the claim, that
  no result ends in a slash, fails: \<open>strings.TrimSuffix\<close> removes one slash, so a
  host that carries its port and ends in two slashes keeps one of them.
\<close>

theorem parseHost_examples_and_double_slash:
  "parseHost [] = ''http://127.0.0.1:11434''
   \<and> parseHost ''example.com'' = ''http://example.com:11434''
   \<and> parseHost ''https://example.com'' = ''https://example.com:443''
   \<and> parseHost ''http://example.com:11434//'' = ''http://example.com:11434/''"
  by code_simp


text \<open>
  In general one slash is removed, and only where no port is put behind it: the
  result ends in a slash only if the host, with its scheme, ends in two.
\<close>

lemma HasSuffix_iff: "HasSuffix s x \<longleftrightarrow> (\<exists>p. s = p @ x)"
proof
  assume "HasSuffix s x"
  then have "s = take (length s - length x) s @ x"
    by (metis HasSuffix_def append_take_drop_id)
  then show "\<exists>p. s = p @ x" ..
next
  assume "\<exists>p. s = p @ x"
  then show "HasSuffix s x" by (auto simp: HasSuffix_def)
qed

lemma TrimSuffix_append: "TrimSuffix (p @ x) x = p"
  by (simp add: TrimSuffix_def HasSuffix_def)

lemma TrimSuffix_slash:
  "HasSuffix (TrimSuffix h ''/'') ''/'' \<Longrightarrow> HasSuffix h ''//''"
proof (cases "HasSuffix h ''/''")
  case True
  then obtain p where p: "h = p @ ''/''" by (auto simp: HasSuffix_iff)
  assume "HasSuffix (TrimSuffix h ''/'') ''/''"
  with p have "HasSuffix p ''/''" by (simp add: TrimSuffix_append)
  then obtain q where "p = q @ ''/''" by (auto simp: HasSuffix_iff)
  with p show ?thesis by (auto simp: HasSuffix_iff)
next
  case False
  assume "HasSuffix (TrimSuffix h ''/'') ''/''"
  with False show ?thesis by (simp add: TrimSuffix_def)
qed

lemma port_appended:
  "\<not> HasSuffix (TrimSuffix (h @ '':443'') ''/'') ''/''"
  "\<not> HasSuffix (TrimSuffix (h @ '':11434'') ''/'') ''/''"
  by (simp_all add: TrimSuffix_def HasSuffix_def)

lemma parseHost_cases:
  "parseHost host = ''http://127.0.0.1:11434''
   \<or> parseHost host = TrimSuffix (with_scheme host @ '':443'') ''/''
   \<or> parseHost host = TrimSuffix (with_scheme host @ '':11434'') ''/''
   \<or> parseHost host = TrimSuffix (with_scheme host) ''/''"
  by (simp add: parseHost_def with_scheme_def Let_def split: option.splits)

lemma parseHost_slash_only_after_two:
  assumes "HasSuffix (parseHost host) ''/''"
  shows "HasSuffix (with_scheme host) ''//''"
proof -
  have d: "\<not> HasSuffix ''http://127.0.0.1:11434'' ''/''" by (simp add: HasSuffix_def)
  from parseHost_cases[of host] assms d port_appended[of "with_scheme host"]
  have "HasSuffix (TrimSuffix (with_scheme host) ''/'') ''/''" by metis
  then show ?thesis by (rule TrimSuffix_slash)
qed

end
